theory Spec2Isabelle
  imports Main "HOL-Library.Sublist"
begin

section \<open>JavaScript values\<close>

text \<open>
  The server (\<^verbatim>\<open>server.js\<close>) handles values produced by \<^verbatim>\<open>JSON.parse\<close> and the
  value \<^verbatim>\<open>undefined\<close> that reading an absent property gives. Strings are lists of
  code units below 256; numbers are the integers (a fraction or an exponent in a frame is
  outside this model). An object is the list of its own properties.
\<close>

datatype js =
    JUndefined
  | JNull
  | JBool bool
  | JNum int
  | JStr string
  | JArr "js list"
  | JObj "(string \<times> js) list"

text \<open>ToBoolean: what \<^verbatim>\<open>if (v)\<close>, \<^verbatim>\<open>!v\<close> and \<^verbatim>\<open>a || b\<close> test.\<close>

fun truthy :: "js \<Rightarrow> bool" where
  "truthy JUndefined = False"
| "truthy JNull = False"
| "truthy (JBool b) = b"
| "truthy (JNum n) = (n \<noteq> 0)"
| "truthy (JStr s) = (s \<noteq> [])"
| "truthy (JArr xs) = True"
| "truthy (JObj kvs) = True"

fun nullish :: "js \<Rightarrow> bool" where
  "nullish JUndefined = True"
| "nullish JNull = True"
| "nullish v = False"

text \<open>
  \<^verbatim>\<open>v.k\<close> for a receiver that is neither \<^verbatim>\<open>null\<close> nor \<^verbatim>\<open>undefined\<close> (there the
  read throws a TypeError, which each caller below writes out). None of the property names
  the server reads is defined on the prototypes of strings, numbers, booleans or arrays, so
  only an object's own properties answer.
\<close>

fun js_prop :: "js \<Rightarrow> string \<Rightarrow> js" where
  "js_prop (JObj kvs) k = (case map_of kvs k of None \<Rightarrow> JUndefined | Some v \<Rightarrow> v)"
| "js_prop v k = JUndefined"

text \<open>\<^verbatim>\<open>v?.k\<close>: optional chaining gives \<^verbatim>\<open>undefined\<close> on a nullish receiver.\<close>

definition opt_prop :: "js \<Rightarrow> string \<Rightarrow> js" where
  "opt_prop v k = (if nullish v then JUndefined else js_prop v k)"

subsection \<open>Conversion to string\<close>

definition digit_char :: "nat \<Rightarrow> char" where
  "digit_char d = char_of (48 + d)"

fun show_nat :: "nat \<Rightarrow> string" where
  "show_nat n = (if n < 10 then [digit_char n] else show_nat (n div 10) @ [digit_char (n mod 10)])"

declare show_nat.simps [simp del]

definition show_int :: "int \<Rightarrow> string" where
  "show_int i = (if i < 0 then CHR ''-'' # show_nat (nat (- i)) else show_nat (nat i))"

fun join :: "string \<Rightarrow> string list \<Rightarrow> string" where
  "join sep [] = []"
| "join sep [x] = x"
| "join sep (x # y # ys) = x @ sep @ join sep (y # ys)"

text \<open>
  ToString, as a template literal \<^verbatim>\<open>`${v}`\<close> and \<^verbatim>\<open>String(v)\<close> apply it; \<open>None\<close>
  where it throws a TypeError. The digits of a number are the platform's
  (\<^verbatim>\<open>Number::toString\<close>, the parameter \<open>f\<close>). An array is its elements joined by
  commas, with \<^verbatim>\<open>null\<close> and \<^verbatim>\<open>undefined\<close> empty, and throws when an element does. An
  object made by \<^verbatim>\<open>JSON.parse\<close> inherits \<^verbatim>\<open>toString\<close> and gives
  \<^verbatim>\<open>[object Object]\<close>, unless it has a property \<^verbatim>\<open>toString\<close> of its own: no JSON value
  is callable, so the conversion skips it, \<^verbatim>\<open>valueOf\<close> gives no primitive either, and
  the conversion throws.
\<close>

fun js_String :: "(int \<Rightarrow> string) \<Rightarrow> js \<Rightarrow> string option" where
  "js_String f JUndefined = Some ''undefined''"
| "js_String f JNull = Some ''null''"
| "js_String f (JBool b) = Some (if b then ''true'' else ''false'')"
| "js_String f (JNum n) = Some (f n)"
| "js_String f (JStr s) = Some s"
| "js_String f (JArr xs) =
     map_option (join '','')
       (those (map (\<lambda>x. if nullish x then Some [] else js_String f x) xs))"
| "js_String f (JObj kvs) =
     (if map_of kvs ''toString'' = None then Some ''[object Object]'' else None)"

subsection \<open>Trimming\<close>

text \<open>The white space and line terminators of ECMAScript that fit in one byte.\<close>

definition is_ws :: "char \<Rightarrow> bool" where
  "is_ws c = (of_char c \<in> {9, 10, 11, 12, 13, 32, 160 :: nat})"

definition trim :: "string \<Rightarrow> string" where
  "trim s = rev (dropWhile is_ws (rev (dropWhile is_ws s)))"

section \<open>Errors, responses and the state of the process\<close>

text \<open>
  A thrown value or a rejected promise is an \<open>exn\<close>. The text of a TypeError is the
  engine's; the model keeps only the expression whose evaluation threw.
\<close>

datatype exn = Error string | TypeError string

fun message :: "exn \<Rightarrow> string" where
  "message (Error m) = m"
| "message (TypeError m) = m"

text \<open>
  What \<^verbatim>\<open>runCodexJsonl\<close> resolves with: \<^verbatim>\<open>{ sessionId, output }\<close>
  (the second field is \<open>outputText\<close> here).
\<close>

record jsonl_result =
  sessionId :: js
  outputText :: js

text \<open>
  A frame written by \<^verbatim>\<open>sendResponse\<close> or \<^verbatim>\<open>sendError\<close>. The results of
  \<^verbatim>\<open>initialize\<close> and \<^verbatim>\<open>tools/list\<close> are fixed literals; the result of a tool call
  is the pair of text items: the output and the session annotation.
\<close>

datatype result = InitializeResult | ToolsListResult | ToolContent js string

datatype frame = Response js result | ErrorResponse js int string

fun frame_id :: "frame \<Rightarrow> js" where
  "frame_id (Response i r) = i"
| "frame_id (ErrorResponse i c m) = i"

record session =
  created :: nat
  initialPrompt :: js

text \<open>
  The state of the process: the \<^verbatim>\<open>sessions\<close> map, the calls of \<^verbatim>\<open>spawn\<close> made so far
  (argument vector and \<^verbatim>\<open>options.cwd\<close>), and the frames written to standard output.
  The map is keyed by the value of the identifier; the diagnostic lines of
  \<^verbatim>\<open>console.error\<close> are not part of the state.
\<close>

record world =
  sessions :: "js \<rightharpoonup> session"
  spawned :: "(js list \<times> js) list"
  stdout :: "frame list"

text \<open>
  What the platform supplies: \<^verbatim>\<open>JSON.parse\<close> (\<open>None\<close> where it throws),
  \<^verbatim>\<open>process.cwd()\<close>, and the text of a number (\<^verbatim>\<open>Number::toString\<close>).
\<close>

record env =
  parse :: "string \<Rightarrow> js option"
  process_cwd :: string
  number_toString :: "int \<Rightarrow> string"

text \<open>
  The conversion to a string inside the server: it gives the text or throws the TypeError
  of the engine (\<^verbatim>\<open>Cannot convert object to primitive value\<close>).
\<close>

definition to_string :: "env \<Rightarrow> js \<Rightarrow> exn + string" where
  "to_string e v =
     (case js_String (number_toString e) v of
        None \<Rightarrow> Inl (TypeError ''Cannot convert object to primitive value'')
      | Some s \<Rightarrow> Inr s)"

text \<open>
  What a spawned child does: it cannot be started (the \<^verbatim>\<open>error\<close> event, or
  \<^verbatim>\<open>spawn\<close> throwing inside the promise), or it closes with an exit code
  (\<^verbatim>\<open>null\<close> when a signal ended it) after writing lines to its standard output.
  A child that never closes leaves the promise pending for ever (the server sets no
  timeout); the model covers the runs in which the child finishes.
\<close>

datatype outcome = SpawnFailed exn | Closed "int option" "string list"

definition sendResponse :: "js \<Rightarrow> result \<Rightarrow> world \<Rightarrow> world" where
  "sendResponse i r w = w\<lparr>stdout := stdout w @ [Response i r]\<rparr>"

definition sendError :: "js \<Rightarrow> int \<Rightarrow> string \<Rightarrow> world \<Rightarrow> world" where
  "sendError i c m w = w\<lparr>stdout := stdout w @ [ErrorResponse i c m]\<rparr>"

section \<open>The output stream of the child\<close>

text \<open>The three variables of \<^verbatim>\<open>runCodexJsonl\<close> that the line handler updates.\<close>

record jsonl_state =
  rawOutput :: string
  cur_sessionId :: js
  finalMessage :: js

definition newline :: char where
  "newline = CHR 0x0A"

definition jsonl_init :: jsonl_state where
  "jsonl_init = \<lparr>rawOutput = [], cur_sessionId = JNull, finalMessage = JStr []\<rparr>"

text \<open>
  \<^verbatim>\<open>stdoutRl.on("line", ...)\<close>. A line that does not parse, and the value \<^verbatim>\<open>null\<close>
  (reading \<^verbatim>\<open>json.type\<close> throws inside the \<^verbatim>\<open>try\<close>), leave the two captures alone.
\<close>

definition onStdoutLine :: "env \<Rightarrow> jsonl_state \<Rightarrow> string \<Rightarrow> jsonl_state" where
  "onStdoutLine e st line =
     (let st1 = st\<lparr>rawOutput := rawOutput st @ line @ [newline]\<rparr>;
          trimmed = trim line
      in if trimmed = [] then st1
         else case parse e trimmed of
                None \<Rightarrow> st1
              | Some json \<Rightarrow>
                  if nullish json then st1
                  else
                    let st2 =
                          (if js_prop json ''type'' = JStr ''thread.started''
                              \<and> truthy (js_prop json ''thread_id'')
                           then st1\<lparr>cur_sessionId := js_prop json ''thread_id''\<rparr>
                           else st1)
                    in if js_prop json ''type'' = JStr ''item.completed''
                          \<and> opt_prop (js_prop json ''item'') ''type'' = JStr ''agent_message''
                          \<and> truthy (opt_prop (js_prop json ''item'') ''text'')
                       then st2\<lparr>finalMessage := js_prop (js_prop json ''item'') ''text''\<rparr>
                       else st2)"

subsection \<open>The fallback pattern\<close>

text \<open>
  \<^verbatim>\<open>/thread_id[":]+([0-9a-f-]{36})/\<close>. The two character classes are disjoint, so at a
  given start the only way to match is to take the whole run of quotes and colons: giving
  one back would put a quote or a colon where a hex digit or a hyphen is required.
  \<open>match_here\<close> is the match anchored at the head of the string, \<open>thread_id_match\<close> the
  leftmost match, and the result is the captured group.
\<close>

definition is_delim :: "char \<Rightarrow> bool" where
  "is_delim c = (c = CHR 0x22 \<or> c = CHR '':'')"

definition is_hexdash :: "char \<Rightarrow> bool" where
  "is_hexdash c = (c \<in> set ''0123456789abcdef-'')"

definition match_here :: "string \<Rightarrow> string option" where
  "match_here s =
     (if prefix ''thread_id'' s then
        (let r = drop 9 s; t = dropWhile is_delim r
         in if takeWhile is_delim r \<noteq> [] \<and> 36 \<le> length t \<and> list_all is_hexdash (take 36 t)
            then Some (take 36 t) else None)
      else None)"

fun thread_id_match :: "string \<Rightarrow> string option" where
  "thread_id_match [] = None"
| "thread_id_match (c # cs) =
     (case match_here (c # cs) of Some u \<Rightarrow> Some u | None \<Rightarrow> thread_id_match cs)"

text \<open>Lines 317 to 322: the scan runs only when no identifier is held.\<close>

definition fallback :: "jsonl_state \<Rightarrow> jsonl_state" where
  "fallback st =
     (if \<not> truthy (cur_sessionId st) then
        (case thread_id_match (rawOutput st) of
           Some u \<Rightarrow> st\<lparr>cur_sessionId := JStr u\<rparr>
         | None \<Rightarrow> st)
      else st)"

definition show_code :: "int option \<Rightarrow> string" where
  "show_code c = (case c of None \<Rightarrow> ''null'' | Some n \<Rightarrow> show_int n)"

text \<open>\<^verbatim>\<open>proc.on("close", ...)\<close>, on the state the lines left.\<close>

definition onClose :: "string \<Rightarrow> int option \<Rightarrow> jsonl_state \<Rightarrow> exn + jsonl_result" where
  "onClose label code st =
     (if code \<noteq> Some 0 then Inl (Error (label @ '' exited with code '' @ show_code code))
      else
        let st' = fallback st
        in if \<not> truthy (cur_sessionId st')
           then Inl (Error (''Could not extract session ID from '' @ label @ '' output''))
           else Inr \<lparr>sessionId = cur_sessionId st',
                     outputText = (if truthy (finalMessage st') then finalMessage st'
                               else JStr (rawOutput st'))\<rparr>)"

text \<open>
  \<^verbatim>\<open>runCodexJsonl\<close>: the call of \<^verbatim>\<open>spawn\<close> is recorded, then the child's outcome
  settles the promise.
\<close>

definition runCodexJsonl ::
  "env \<Rightarrow> outcome \<Rightarrow> js list \<Rightarrow> js \<Rightarrow> string \<Rightarrow> world \<Rightarrow> (exn + jsonl_result) \<times> world" where
  "runCodexJsonl e oc cliArgs cwd label w =
     (let w' = w\<lparr>spawned := spawned w @
                  [(cliArgs, if truthy cwd then cwd else JStr (process_cwd e))]\<rparr>
      in case oc of
           SpawnFailed err \<Rightarrow> (Inl err, w')
         | Closed code lines \<Rightarrow>
             (onClose label code (foldl (onStdoutLine e) jsonl_init lines), w'))"

section \<open>The three tools\<close>

definition runCodexStart ::
  "env \<Rightarrow> outcome \<Rightarrow> nat \<Rightarrow> js \<Rightarrow> world \<Rightarrow> (exn + jsonl_result) \<times> world" where
  "runCodexStart e oc now args w =
     (if nullish args then (Inl (TypeError ''args.prompt''), w)
      else
        let cliArgs = [JStr ''exec'', js_prop args ''prompt''];
            cliArgs = cliArgs @ [JStr ''--sandbox'', JStr ''read-only''];
            cliArgs = (if truthy (js_prop args ''cwd'')
                       then cliArgs @ [JStr ''-C'', js_prop args ''cwd''] else cliArgs);
            cliArgs = cliArgs @ [JStr ''--json'']
        in case runCodexJsonl e oc cliArgs (js_prop args ''cwd'') ''Codex'' w of
             (Inl err, w') \<Rightarrow> (Inl err, w')
           | (Inr r, w') \<Rightarrow>
               (Inr r, w'\<lparr>sessions := (sessions w')(sessionId r \<mapsto>
                          \<lparr>created = now, initialPrompt = js_prop args ''prompt''\<rparr>)\<rparr>))"

definition runCodexResume ::
  "env \<Rightarrow> outcome \<Rightarrow> js \<Rightarrow> js \<Rightarrow> world \<Rightarrow> (exn + jsonl_result) \<times> world" where
  "runCodexResume e oc sid prompt w =
     runCodexJsonl e oc [JStr ''exec'', JStr ''--json'', JStr ''resume'', sid, prompt]
       JUndefined ''Codex resume'' w"

definition runCodexReview ::
  "env \<Rightarrow> outcome \<Rightarrow> js \<Rightarrow> world \<Rightarrow> (exn + jsonl_result) \<times> world" where
  "runCodexReview e oc args w =
     (if \<not> truthy args \<or> \<not> truthy (js_prop args ''mode'')
      then (Inl (Error ''codex-review requires mode''), w)
      else
        let cliArgs = [JStr ''exec''];
            cliArgs = (if truthy (js_prop args ''cwd'')
                       then cliArgs @ [JStr ''-C'', js_prop args ''cwd''] else cliArgs);
            cliArgs = cliArgs @ [JStr ''--json''];
            cliArgs = cliArgs @ [JStr ''review''];
            mode = js_prop args ''mode'';
            run = (\<lambda>cliArgs. runCodexJsonl e oc cliArgs (js_prop args ''cwd'') ''Codex review'' w)
        in if mode = JStr ''uncommitted'' then run (cliArgs @ [JStr ''--uncommitted''])
           else if mode = JStr ''base'' then
             (if \<not> truthy (js_prop args ''base'')
              then (Inl (Error ''mode=base requires base''), w)
              else (case to_string e (js_prop args ''base'') of
                      Inl err \<Rightarrow> (Inl err, w)
                    | Inr b \<Rightarrow> run (cliArgs @ [JStr ''--base'', JStr b])))
           else if mode = JStr ''commit'' then
             (if \<not> truthy (js_prop args ''commit'')
              then (Inl (Error ''mode=commit requires commit''), w)
              else (case to_string e (js_prop args ''commit'') of
                      Inl err \<Rightarrow> (Inl err, w)
                    | Inr c \<Rightarrow> run (cliArgs @ [JStr ''--commit'', JStr c])))
           else if mode = JStr ''custom'' then
             (case js_prop args ''prompt'' of
                JStr p \<Rightarrow>
                  if p = [] \<or> trim p = []
                  then (Inl (Error ''mode=custom requires prompt''), w)
                  else run (cliArgs @ [JStr (trim p)])
              | v \<Rightarrow>
                  if \<not> truthy v then (Inl (Error ''mode=custom requires prompt''), w)
                  else (Inl (TypeError ''args.prompt.trim''), w))
           else (case to_string e mode of
                   Inl err \<Rightarrow> (Inl err, w)
                 | Inr m \<Rightarrow> (Inl (Error (''Unknown review mode: '' @ m)), w)))"

section \<open>The dispatcher\<close>

definition session_note :: "string \<Rightarrow> string" where
  "session_note sid = newline # ''[SESSION_ID: '' @ sid @ '']''"

text \<open>
  The two branches of \<^verbatim>\<open>handleToolCall\<close> after a tool has run: the response, or the
  error frame of the \<^verbatim>\<open>catch\<close>. The template literal of the session annotation is
  evaluated inside the \<^verbatim>\<open>try\<close> before \<^verbatim>\<open>sendResponse\<close> is called, so when it
  throws, the \<^verbatim>\<open>catch\<close> sends the error frame.
\<close>

definition reply :: "env \<Rightarrow> js \<Rightarrow> (exn + jsonl_result) \<times> world \<Rightarrow> world" where
  "reply e i rw =
     (case rw of
        (Inr r, w') \<Rightarrow>
          (case to_string e (sessionId r) of
             Inl err \<Rightarrow> sendError i (- 32603) (message err) w'
           | Inr sid \<Rightarrow> sendResponse i (ToolContent (outputText r) (session_note sid)) w')
      | (Inl err, w') \<Rightarrow> sendError i (- 32603) (message err) w')"

text \<open>
  \<^verbatim>\<open>handleToolCall\<close>. The destructuring of \<^verbatim>\<open>message.params\<close> stands before the
  \<^verbatim>\<open>try\<close>: on \<^verbatim>\<open>null\<close> or \<^verbatim>\<open>undefined\<close> it throws out of the function, and the
  result is \<open>Some\<close> of what was thrown. Everything after it is inside the
  \<^verbatim>\<open>try\<close>, whose \<^verbatim>\<open>catch\<close> sends the error frame.
\<close>

definition handleToolCall :: "env \<Rightarrow> outcome \<Rightarrow> nat \<Rightarrow> js \<Rightarrow> world \<Rightarrow> exn option \<times> world" where
  "handleToolCall e oc now msg w =
     (let params = js_prop msg ''params''
      in if nullish params then (Some (TypeError ''message.params''), w)
         else
           let name = js_prop params ''name'';
               args = js_prop params ''arguments'';
               i = js_prop msg ''id''
           in if name = JStr ''codex'' then (None, reply e i (runCodexStart e oc now args w))
              else if name = JStr ''codex-reply'' then
                (if nullish args then (None, sendError i (- 32603) (message (TypeError ''args.sessionId'')) w)
                 else (None, reply e i (runCodexResume e oc (js_prop args ''sessionId'')
                                          (js_prop args ''prompt'') w)))
              else if name = JStr ''codex-review'' then (None, reply e i (runCodexReview e oc args w))
              else (case to_string e name of
                      Inl err \<Rightarrow> (None, sendError i (- 32603) (message err) w)
                    | Inr n \<Rightarrow> (None, sendError i (- 32602) (''Unknown tool: '' @ n) w)))"

definition handleInitialize :: "js \<Rightarrow> world \<Rightarrow> world" where
  "handleInitialize msg w = sendResponse (js_prop msg ''id'') InitializeResult w"

definition handleToolsList :: "js \<Rightarrow> world \<Rightarrow> world" where
  "handleToolsList msg w = sendResponse (js_prop msg ''id'') ToolsListResult w"

text \<open>
  \<^verbatim>\<open>rl.on("line", ...)\<close>: whatever is thrown inside (by \<^verbatim>\<open>JSON.parse\<close>, by reading
  \<^verbatim>\<open>message.method\<close> of \<^verbatim>\<open>null\<close>, or out of \<^verbatim>\<open>handleToolCall\<close>) is logged and
  nothing is written.
\<close>

definition onLine :: "env \<Rightarrow> outcome \<Rightarrow> nat \<Rightarrow> string \<Rightarrow> world \<Rightarrow> world" where
  "onLine e oc now line w =
     (case parse e line of
        None \<Rightarrow> w
      | Some msg \<Rightarrow>
          if nullish msg then w
          else
            let m = js_prop msg ''method''
            in if m = JStr ''initialize'' then handleInitialize msg w
               else if m = JStr ''initialized'' then w
               else if m = JStr ''tools/list'' then handleToolsList msg w
               else if m = JStr ''tools/call'' then snd (handleToolCall e oc now msg w)
               else sendError (js_prop msg ''id'') (- 32601) ''Method not found'' w)"

text \<open>
  The frames of a session, one after the other, each with the behaviour of the child it
  would spawn and the reading of the clock at its completion.
\<close>

fun serve :: "env \<Rightarrow> (string \<times> outcome \<times> nat) list \<Rightarrow> world \<Rightarrow> world" where
  "serve e [] w = w"
| "serve e ((line, oc, now) # rest) w = serve e rest (onLine e oc now line w)"

definition world_init :: world where
  "world_init = \<lparr>sessions = Map.empty, spawned = [], stdout = []\<rparr>"


section \<open>Notions used in the statements\<close>

text \<open>The argument vector \<^verbatim>\<open>runCodexStart\<close> has built when it calls \<^verbatim>\<open>runCodexJsonl\<close>.\<close>

definition start_cliArgs :: "js \<Rightarrow> js list" where
  "start_cliArgs args =
     [JStr ''exec'', js_prop args ''prompt'', JStr ''--sandbox'', JStr ''read-only'']
       @ (if truthy (js_prop args ''cwd'') then [JStr ''-C'', js_prop args ''cwd''] else [])
       @ [JStr ''--json'']"

text \<open>
  The part of the review vector before \<^verbatim>\<open>--json\<close>, the directory the review child
  is started in, and the endings the four modes append after \<^verbatim>\<open>review\<close>.
\<close>

definition review_head :: "js \<Rightarrow> js list" where
  "review_head args =
     JStr ''exec'' # (if truthy (js_prop args ''cwd'') then [JStr ''-C'', js_prop args ''cwd''] else [])"

definition review_dir :: "env \<Rightarrow> js \<Rightarrow> js" where
  "review_dir e args =
     (if truthy (js_prop args ''cwd'') then js_prop args ''cwd'' else JStr (process_cwd e))"

definition review_opts :: "env \<Rightarrow> js \<Rightarrow> js list set" where
  "review_opts e args =
     {[JStr ''--uncommitted'']}
     \<union> {[JStr ''--base'', JStr b] | b. to_string e (js_prop args ''base'') = Inr b}
     \<union> {[JStr ''--commit'', JStr c] | c. to_string e (js_prop args ''commit'') = Inr c}
     \<union> {[JStr (trim p)] | p. js_prop args ''prompt'' = JStr p}"

text \<open>
  The state of the line handler when the stream ends, the identifier held after the fallback,
  and the raw buffer a sequence of lines accumulates.
\<close>

definition stream_end :: "env \<Rightarrow> string list \<Rightarrow> jsonl_state" where
  "stream_end e lines = foldl (onStdoutLine e) jsonl_init lines"

definition extracted :: "env \<Rightarrow> string list \<Rightarrow> js" where
  "extracted e lines = cur_sessionId (fallback (stream_end e lines))"

definition raw_buffer :: "string list \<Rightarrow> string" where
  "raw_buffer lines = concat (map (\<lambda>l. l @ [newline]) lines)"

text \<open>
  The text a line makes the handler store in \<^verbatim>\<open>finalMessage\<close> (the condition of lines
  288 to 294), and the last such text of a stream.
\<close>

definition agent_message :: "env \<Rightarrow> string \<Rightarrow> js option" where
  "agent_message e line =
     (if trim line = [] then None
      else case parse e (trim line) of
             None \<Rightarrow> None
           | Some json \<Rightarrow>
               if nullish json then None
               else if js_prop json ''type'' = JStr ''item.completed''
                       \<and> opt_prop (js_prop json ''item'') ''type'' = JStr ''agent_message''
                       \<and> truthy (opt_prop (js_prop json ''item'') ''text'')
                    then Some (js_prop (js_prop json ''item'') ''text'')
                    else None)"

definition last_message :: "env \<Rightarrow> string list \<Rightarrow> js option" where
  "last_message e lines =
     (let ms = List.map_filter (agent_message e) lines
      in if ms = [] then None else Some (last ms))"

text \<open>An identifier variable holds \<^verbatim>\<open>null\<close> or a truthy value.\<close>

definition held :: "js \<Rightarrow> bool" where
  "held v = (v = JNull \<or> truthy v)"

text \<open>
  A UUID in its canonical form: 36 characters, hyphens at positions 8, 13, 18 and 23,
  lowercase hexadecimal digits elsewhere. \<open>thread_id_literal\<close> is the text
  \<^verbatim>\<open>thread_id":"\<close>.
\<close>

definition is_hex :: "char \<Rightarrow> bool" where
  "is_hex c = (c \<in> set ''0123456789abcdef'')"

definition is_uuid :: "string \<Rightarrow> bool" where
  "is_uuid u =
     (length u = 36 \<and>
      list_all (\<lambda>i. if i \<in> {8, 13, 18, 23} then u ! i = CHR ''-'' else is_hex (u ! i)) [0..<36])"

definition thread_id_literal :: string where
  "thread_id_literal = ''thread_id'' @ [CHR 0x22, CHR '':'', CHR 0x22]"

text \<open>
  The identifier with which the start operation of an inbound frame completes, if the frame
  is a call of the tool \<^verbatim>\<open>codex\<close> and the operation succeeds. (The outcome of
  \<^verbatim>\<open>runCodexStart\<close> does not depend on the state it starts from.)
\<close>

definition started :: "env \<Rightarrow> outcome \<Rightarrow> nat \<Rightarrow> string \<Rightarrow> js option" where
  "started e oc now line =
     (case parse e line of
        None \<Rightarrow> None
      | Some msg \<Rightarrow>
          if \<not> nullish msg \<and> js_prop msg ''method'' = JStr ''tools/call''
             \<and> \<not> nullish (js_prop msg ''params'')
             \<and> js_prop (js_prop msg ''params'') ''name'' = JStr ''codex''
          then (case fst (runCodexStart e oc now (js_prop (js_prop msg ''params'') ''arguments'')
                            world_init) of
                  Inr r \<Rightarrow> Some (sessionId r)
                | Inl err \<Rightarrow> None)
          else None)"

subsection \<open>Sample frames and lines\<close>

text \<open>
  Lines of a child's output and inbound frames, with the values \<^verbatim>\<open>JSON.parse\<close> gives
  for them; \<open>demo_parse\<close> agrees with \<^verbatim>\<open>JSON.parse\<close> on these lines and, as
  \<^verbatim>\<open>JSON.parse\<close> does on text that is not JSON, fails on the other lines used below.
  The decimal digits \<open>show_int\<close> are the platform's text of an integer below \<open>2\<^sup>5\<^sup>3\<close> in
  magnitude.
\<close>

definition demo_uuid :: string where
  "demo_uuid = ''0199a0b1-c2d3-7e4f-8a5b-6c7d8e9f0a1b''"

definition started_line :: string where
  \<open>started_line = ''{"type":"thread.started","thread_id":"0199a0b1-c2d3-7e4f-8a5b-6c7d8e9f0a1b"}''\<close>

definition hello_line :: string where
  \<open>hello_line = ''{"type":"item.completed","item":{"id":"item_0","type":"agent_message","text":"Hello"}}''\<close>

definition bye_line :: string where
  \<open>bye_line = ''{"type":"item.completed","item":{"id":"item_1","type":"agent_message","text":"Bye"}}''\<close>
definition fallback_line :: string where
  \<open>fallback_line = ''warn thread_id":"0199a0b1-c2d3-7e4f-8a5b-6c7d8e9f0a1b" seen''\<close>

definition start_request :: string where
  \<open>start_request = ''{"jsonrpc":"2.0","id":1,"method":"tools/call","params":{"name":"codex","arguments":{"prompt":"hello"}}}''\<close>

definition reply_request :: string where
  \<open>reply_request = ''{"jsonrpc":"2.0","id":2,"method":"tools/call","params":{"name":"codex-reply","arguments":{"sessionId":"0199a0b1-c2d3-7e4f-8a5b-6c7d8e9f0a1b","prompt":"more"}}}''\<close>

definition no_params_request :: string where
  \<open>no_params_request = ''{"jsonrpc":"2.0","id":3,"method":"tools/call"}''\<close>

definition initialized_request :: string where
  \<open>initialized_request = ''{"jsonrpc":"2.0","id":4,"method":"initialized"}''\<close>

definition review_request :: string where
  \<open>review_request = ''{"jsonrpc":"2.0","id":5,"method":"tools/call","params":{"name":"codex-review","arguments":{"mode":"uncommitted"}}}''\<close>

definition demo_parse :: "string \<Rightarrow> js option" where
  "demo_parse = map_of
     [(started_line, JObj [(''type'', JStr ''thread.started''), (''thread_id'', JStr demo_uuid)]),
      (hello_line, JObj [(''type'', JStr ''item.completed''),
                         (''item'', JObj [(''id'', JStr ''item_0''), (''type'', JStr ''agent_message''),
                                          (''text'', JStr ''Hello'')])]),
      (bye_line, JObj [(''type'', JStr ''item.completed''),
                       (''item'', JObj [(''id'', JStr ''item_1''), (''type'', JStr ''agent_message''),
                                        (''text'', JStr ''Bye'')])]),
      (start_request,
         JObj [(''jsonrpc'', JStr ''2.0''), (''id'', JNum 1), (''method'', JStr ''tools/call''),
               (''params'', JObj [(''name'', JStr ''codex''),
                                  (''arguments'', JObj [(''prompt'', JStr ''hello'')])])]),
      (reply_request,
         JObj [(''jsonrpc'', JStr ''2.0''), (''id'', JNum 2), (''method'', JStr ''tools/call''),
               (''params'', JObj [(''name'', JStr ''codex-reply''),
                                  (''arguments'', JObj [(''sessionId'', JStr demo_uuid),
                                                        (''prompt'', JStr ''more'')])])]),
      (no_params_request,
         JObj [(''jsonrpc'', JStr ''2.0''), (''id'', JNum 3), (''method'', JStr ''tools/call'')]),
      (initialized_request,
         JObj [(''jsonrpc'', JStr ''2.0''), (''id'', JNum 4), (''method'', JStr ''initialized'')]),
      (review_request,
         JObj [(''jsonrpc'', JStr ''2.0''), (''id'', JNum 5), (''method'', JStr ''tools/call''),
               (''params'', JObj [(''name'', JStr ''codex-review''),
                                  (''arguments'', JObj [(''mode'', JStr ''uncommitted'')])])])]"

definition demo_env :: env where
  "demo_env = \<lparr>parse = demo_parse, process_cwd = ''/srv'', number_toString = show_int\<rparr>"

section \<open>The spawn call\<close>

lemma spawned_runCodexJsonl:
  "spawned (snd (runCodexJsonl e oc cliArgs cwd label w)) =
     spawned w @ [(cliArgs, if truthy cwd then cwd else JStr (process_cwd e))]"
  by (simp add: runCodexJsonl_def Let_def split: outcome.splits)

lemma sessions_runCodexJsonl:
  "sessions (snd (runCodexJsonl e oc cliArgs cwd label w)) = sessions w"
  by (simp add: runCodexJsonl_def Let_def split: outcome.splits)

lemma stdout_runCodexJsonl:
  "stdout (snd (runCodexJsonl e oc cliArgs cwd label w)) = stdout w"
  by (simp add: runCodexJsonl_def Let_def split: outcome.splits)

text \<open>
  C10. \<^verbatim>\<open>runCodexResume\<close> spawns exactly
  \<^verbatim>\<open>["exec", "--json", "resume", sessionId, prompt]\<close> in the server's own current
  directory. The vector has no \<^verbatim>\<open>--sandbox read-only\<close> and no \<^verbatim>\<open>-C\<close> of the
  server's making: such a token occurs in it only as the caller's session identifier or
  prompt.
\<close>

theorem C10_resume_argument_vector:
  "spawned (snd (runCodexResume e oc sid prompt w)) =
     spawned w @ [([JStr ''exec'', JStr ''--json'', JStr ''resume'', sid, prompt],
                   JStr (process_cwd e))]
   \<and> (\<forall>flag \<in> {JStr ''--sandbox'', JStr ''read-only'', JStr ''-C''}.
         flag \<in> set [JStr ''exec'', JStr ''--json'', JStr ''resume'', sid, prompt]
         \<longrightarrow> flag = sid \<or> flag = prompt)"
  by (simp add: runCodexResume_def spawned_runCodexJsonl)

theorem C10_resume_argument_vector_witness:
  "spawned (snd (runCodexResume \<lparr>parse = (\<lambda>s. None), process_cwd = ''/srv'', number_toString = show_int\<rparr>
                  (Closed (Some 0) []) (JStr ''0199a0b1-c2d3-7e4f-8a5b-6c7d8e9f0a1b'') (JStr ''go on'')
                  world_init)) =
     [([JStr ''exec'', JStr ''--json'', JStr ''resume'',
        JStr ''0199a0b1-c2d3-7e4f-8a5b-6c7d8e9f0a1b'', JStr ''go on''], JStr ''/srv'')]
   \<and> JStr ''--sandbox'' \<notin> set [JStr ''exec'', JStr ''--json'', JStr ''resume'',
        JStr ''0199a0b1-c2d3-7e4f-8a5b-6c7d8e9f0a1b'', JStr ''go on'']"
  using C10_resume_argument_vector [of "\<lparr>parse = (\<lambda>s. None), process_cwd = ''/srv'', number_toString = show_int\<rparr>"
      "Closed (Some 0) []" "JStr ''0199a0b1-c2d3-7e4f-8a5b-6c7d8e9f0a1b''" "JStr ''go on''" world_init]
  by (simp add: world_init_def)

lemma runCodexStart_unfold:
  "\<not> nullish args \<Longrightarrow>
   runCodexStart e oc now args w =
     (case runCodexJsonl e oc (start_cliArgs args) (js_prop args ''cwd'') ''Codex'' w of
        (Inl err, w') \<Rightarrow> (Inl err, w')
      | (Inr r, w') \<Rightarrow>
          (Inr r, w'\<lparr>sessions := (sessions w')(sessionId r \<mapsto>
                     \<lparr>created = now, initialPrompt = js_prop args ''prompt''\<rparr>)\<rparr>))"
  by (simp add: runCodexStart_def start_cliArgs_def Let_def)

lemma spawned_runCodexStart:
  assumes "\<not> nullish args"
  shows "spawned (snd (runCodexStart e oc now args w)) =
     spawned w @ [(start_cliArgs args,
                   if truthy (js_prop args ''cwd'') then js_prop args ''cwd''
                   else JStr (process_cwd e))]"
proof -
  obtain res w' where rw: "runCodexJsonl e oc (start_cliArgs args) (js_prop args ''cwd'') ''Codex'' w = (res, w')"
    by (cases "runCodexJsonl e oc (start_cliArgs args) (js_prop args ''cwd'') ''Codex'' w")
  have "spawned w' = spawned w @ [(start_cliArgs args,
                   if truthy (js_prop args ''cwd'') then js_prop args ''cwd''
                   else JStr (process_cwd e))]"
    using spawned_runCodexJsonl [of e oc "start_cliArgs args" "js_prop args ''cwd''" "''Codex''" w] rw
    by simp
  then show ?thesis
    using assms rw by (cases res) (simp_all add: runCodexStart_unfold)
qed

lemma falsy_cases:
  "\<not> truthy v \<Longrightarrow> v = JUndefined \<or> v = JNull \<or> v = JBool False \<or> v = JNum 0 \<or> v = JStr []"
  by (cases v) auto

lemma no_flag_pair_without_cwd:
  assumes "\<not> truthy c"
  shows "\<not> sublist [JStr ''-C'', c]
            [JStr ''exec'', p, JStr ''--sandbox'', JStr ''read-only'', JStr ''--json'']"
  using falsy_cases [OF assms]
  by (auto simp add: sublist_Cons_right)

text \<open>
  C7. Whenever \<^verbatim>\<open>runCodexStart\<close> gets as far as spawning (its argument object is
  neither \<^verbatim>\<open>null\<close> nor \<^verbatim>\<open>undefined\<close>), the vector is
  \<^verbatim>\<open>exec <prompt> --sandbox read-only [-C <cwd>] --json\<close>: it contains the adjacent
  pair \<^verbatim>\<open>--sandbox read-only\<close> and the flag \<^verbatim>\<open>--json\<close>, and it contains the adjacent
  pair \<^verbatim>\<open>-C <cwd>\<close> exactly when a working directory was supplied, which the code tests
  as \<^verbatim>\<open>if (args.cwd)\<close> (an empty string, like an absent property, is no directory).
\<close>

theorem C7_start_argument_vector:
  assumes "\<not> nullish args"
  shows "\<exists>argv dir.
           spawned (snd (runCodexStart e oc now args w)) = spawned w @ [(argv, dir)]
         \<and> dir = (if truthy (js_prop args ''cwd'') then js_prop args ''cwd''
                   else JStr (process_cwd e))
         \<and> argv = [JStr ''exec'', js_prop args ''prompt'', JStr ''--sandbox'', JStr ''read-only'']
                    @ (if truthy (js_prop args ''cwd'') then [JStr ''-C'', js_prop args ''cwd''] else [])
                    @ [JStr ''--json'']
         \<and> sublist [JStr ''--sandbox'', JStr ''read-only''] argv
         \<and> JStr ''--json'' \<in> set argv
         \<and> (sublist [JStr ''-C'', js_prop args ''cwd''] argv \<longleftrightarrow> truthy (js_prop args ''cwd''))"
proof -
  let ?argv = "start_cliArgs args"
  have sb: "sublist [JStr ''--sandbox'', JStr ''read-only''] ?argv"
    unfolding start_cliArgs_def
    using sublist_appendI [of "[JStr ''--sandbox'', JStr ''read-only'']"
        "[JStr ''exec'', js_prop args ''prompt'']"]
    by simp
  have js: "JStr ''--json'' \<in> set ?argv"
    by (simp add: start_cliArgs_def)
  have cw: "sublist [JStr ''-C'', js_prop args ''cwd''] ?argv \<longleftrightarrow> truthy (js_prop args ''cwd'')"
  proof (cases "truthy (js_prop args ''cwd'')")
    case True
    then show ?thesis
      unfolding start_cliArgs_def
      using sublist_appendI [of "[JStr ''-C'', js_prop args ''cwd'']"
          "[JStr ''exec'', js_prop args ''prompt'', JStr ''--sandbox'', JStr ''read-only'']"
          "[JStr ''--json'']"]
      by simp
  next
    case False
    then show ?thesis
      using no_flag_pair_without_cwd [OF False, of "js_prop args ''prompt''"]
      by (simp add: start_cliArgs_def)
  qed
  show ?thesis
    using spawned_runCodexStart [OF assms, of e oc now w] sb js cw
    by (auto simp add: start_cliArgs_def)
qed

theorem C7_start_argument_vector_witness:
  "\<not> nullish (JObj [(''prompt'', JStr ''hello''), (''cwd'', JStr ''/repo'')])
   \<and> spawned (snd (runCodexStart \<lparr>parse = (\<lambda>s. None), process_cwd = ''/srv'', number_toString = show_int\<rparr>
                     (Closed (Some 0) []) 0
                     (JObj [(''prompt'', JStr ''hello''), (''cwd'', JStr ''/repo'')]) world_init)) =
       [([JStr ''exec'', JStr ''hello'', JStr ''--sandbox'', JStr ''read-only'',
          JStr ''-C'', JStr ''/repo'', JStr ''--json''], JStr ''/repo'')]"
  using C7_start_argument_vector [of "JObj [(''prompt'', JStr ''hello''), (''cwd'', JStr ''/repo'')]"
      "\<lparr>parse = (\<lambda>s. None), process_cwd = ''/srv'', number_toString = show_int\<rparr>" "Closed (Some 0) []" 0 world_init]
  by (auto simp add: world_init_def)

section \<open>Validation of a review request\<close>

lemma runCodexReview_missing_mode:
  "\<not> truthy args \<or> \<not> truthy (js_prop args ''mode'') \<Longrightarrow>
   runCodexReview e oc args w = (Inl (Error ''codex-review requires mode''), w)"
  by (auto simp add: runCodexReview_def)

lemma runCodexReview_uncommitted:
  "truthy args \<Longrightarrow> js_prop args ''mode'' = JStr ''uncommitted'' \<Longrightarrow>
   runCodexReview e oc args w =
     runCodexJsonl e oc (review_head args @ [JStr ''--json'', JStr ''review''] @ [JStr ''--uncommitted''])
       (js_prop args ''cwd'') ''Codex review'' w"
  by (simp add: runCodexReview_def review_head_def Let_def)

lemma runCodexReview_base:
  "truthy args \<Longrightarrow> js_prop args ''mode'' = JStr ''base'' \<Longrightarrow>
   runCodexReview e oc args w =
     (if \<not> truthy (js_prop args ''base'') then (Inl (Error ''mode=base requires base''), w)
      else case to_string e (js_prop args ''base'') of
             Inl err \<Rightarrow> (Inl err, w)
           | Inr b \<Rightarrow>
               runCodexJsonl e oc (review_head args @ [JStr ''--json'', JStr ''review'']
                                     @ [JStr ''--base'', JStr b])
                 (js_prop args ''cwd'') ''Codex review'' w)"
  by (simp add: runCodexReview_def review_head_def Let_def split: sum.splits)

lemma runCodexReview_commit:
  "truthy args \<Longrightarrow> js_prop args ''mode'' = JStr ''commit'' \<Longrightarrow>
   runCodexReview e oc args w =
     (if \<not> truthy (js_prop args ''commit'') then (Inl (Error ''mode=commit requires commit''), w)
      else case to_string e (js_prop args ''commit'') of
             Inl err \<Rightarrow> (Inl err, w)
           | Inr c \<Rightarrow>
               runCodexJsonl e oc (review_head args @ [JStr ''--json'', JStr ''review'']
                                     @ [JStr ''--commit'', JStr c])
                 (js_prop args ''cwd'') ''Codex review'' w)"
  by (simp add: runCodexReview_def review_head_def Let_def split: sum.splits)

lemma runCodexReview_custom:
  "truthy args \<Longrightarrow> js_prop args ''mode'' = JStr ''custom'' \<Longrightarrow>
   runCodexReview e oc args w =
     (case js_prop args ''prompt'' of
        JStr p \<Rightarrow>
          if p = [] \<or> trim p = [] then (Inl (Error ''mode=custom requires prompt''), w)
          else runCodexJsonl e oc (review_head args @ [JStr ''--json'', JStr ''review''] @ [JStr (trim p)])
                 (js_prop args ''cwd'') ''Codex review'' w
      | v \<Rightarrow> if \<not> truthy v then (Inl (Error ''mode=custom requires prompt''), w)
             else (Inl (TypeError ''args.prompt.trim''), w))"
  by (simp add: runCodexReview_def review_head_def Let_def split: js.splits)

lemma runCodexReview_unknown:
  "truthy args \<Longrightarrow> truthy (js_prop args ''mode'') \<Longrightarrow>
   js_prop args ''mode'' \<notin> {JStr ''uncommitted'', JStr ''base'', JStr ''commit'', JStr ''custom''} \<Longrightarrow>
   runCodexReview e oc args w =
     (case to_string e (js_prop args ''mode'') of
        Inl err \<Rightarrow> (Inl err, w)
      | Inr m \<Rightarrow> (Inl (Error (''Unknown review mode: '' @ m)), w))"
  by (simp add: runCodexReview_def Let_def)

lemma trim_Nil: "trim [] = []"
  by (simp add: trim_def)

text \<open>
  C4. Not every mode outside the four names fails with the unknown-mode error. A mode
  object with a \<^verbatim>\<open>toString\<close> property of its own makes the template literal of line 251
  throw, and the request fails with that TypeError; the empty string is no mode at all for
  the test \<^verbatim>\<open>!args.mode\<close> of line 213, and the request fails with the missing-mode
  error.
\<close>

theorem C4_unknown_mode_counterexample:
  "runCodexReview \<lparr>parse = (\<lambda>s. None), process_cwd = ''/srv'', number_toString = show_int\<rparr> (Closed (Some 0) [])
      (JObj [(''mode'', JObj [(''toString'', JNum 1)])]) world_init
     = (Inl (TypeError ''Cannot convert object to primitive value''), world_init)
   \<and> runCodexReview \<lparr>parse = (\<lambda>s. None), process_cwd = ''/srv'', number_toString = show_int\<rparr> (Closed (Some 0) [])
      (JObj [(''mode'', JStr [])]) world_init
     = (Inl (Error ''codex-review requires mode''), world_init)"
  by (simp add: runCodexReview_def to_string_def Let_def)

text \<open>
  C4, amended. A review request fails, with the state unchanged and so with no call of
  \<^verbatim>\<open>spawn\<close>: with the missing-mode error when the argument object or its mode is
  missing (the code tests \<^verbatim>\<open>!args || !args.mode\<close>, so a mode that is absent, empty or
  otherwise falsy is a missing one); with the missing-base error for mode \<^verbatim>\<open>base\<close>
  without a base; with the missing-commit error for mode \<^verbatim>\<open>commit\<close> without a commit;
  with the missing-prompt error for mode \<^verbatim>\<open>custom\<close> when the prompt is absent or a
  string that is empty once trimmed. Every other mode that is present fails with the
  unknown-mode error, which names the mode as the template literal converts it to a
  string, and with the TypeError of that conversion when the conversion throws.
\<close>

theorem C4_review_validation:
  "(\<not> truthy args \<or> \<not> truthy (js_prop args ''mode'') \<longrightarrow>
      runCodexReview e oc args w = (Inl (Error ''codex-review requires mode''), w))
   \<and> (truthy args \<and> js_prop args ''mode'' = JStr ''base'' \<and> \<not> truthy (js_prop args ''base'') \<longrightarrow>
      runCodexReview e oc args w = (Inl (Error ''mode=base requires base''), w))
   \<and> (truthy args \<and> js_prop args ''mode'' = JStr ''commit'' \<and> \<not> truthy (js_prop args ''commit'') \<longrightarrow>
      runCodexReview e oc args w = (Inl (Error ''mode=commit requires commit''), w))
   \<and> (truthy args \<and> js_prop args ''mode'' = JStr ''custom''
        \<and> (\<not> truthy (js_prop args ''prompt'') \<or> (\<exists>p. js_prop args ''prompt'' = JStr p \<and> trim p = [])) \<longrightarrow>
      runCodexReview e oc args w = (Inl (Error ''mode=custom requires prompt''), w))
   \<and> (truthy args \<and> truthy (js_prop args ''mode'')
        \<and> js_prop args ''mode'' \<notin> {JStr ''uncommitted'', JStr ''base'', JStr ''commit'', JStr ''custom''} \<longrightarrow>
      runCodexReview e oc args w =
        (case js_String (number_toString e) (js_prop args ''mode'') of
           Some m \<Rightarrow> (Inl (Error (''Unknown review mode: '' @ m)), w)
         | None \<Rightarrow> (Inl (TypeError ''Cannot convert object to primitive value''), w)))
   \<and> (\<forall>m. truthy args \<and> js_prop args ''mode'' = JStr m \<and> m \<noteq> []
        \<and> m \<notin> {''uncommitted'', ''base'', ''commit'', ''custom''} \<longrightarrow>
      runCodexReview e oc args w = (Inl (Error (''Unknown review mode: '' @ m)), w))"
proof (intro conjI impI allI)
  assume "\<not> truthy args \<or> \<not> truthy (js_prop args ''mode'')"
  then show "runCodexReview e oc args w = (Inl (Error ''codex-review requires mode''), w)"
    by (rule runCodexReview_missing_mode)
next
  assume "truthy args \<and> js_prop args ''mode'' = JStr ''base'' \<and> \<not> truthy (js_prop args ''base'')"
  then show "runCodexReview e oc args w = (Inl (Error ''mode=base requires base''), w)"
    by (simp add: runCodexReview_base)
next
  assume "truthy args \<and> js_prop args ''mode'' = JStr ''commit'' \<and> \<not> truthy (js_prop args ''commit'')"
  then show "runCodexReview e oc args w = (Inl (Error ''mode=commit requires commit''), w)"
    by (simp add: runCodexReview_commit)
next
  assume a: "truthy args \<and> js_prop args ''mode'' = JStr ''custom''
        \<and> (\<not> truthy (js_prop args ''prompt'') \<or> (\<exists>p. js_prop args ''prompt'' = JStr p \<and> trim p = []))"
  then show "runCodexReview e oc args w = (Inl (Error ''mode=custom requires prompt''), w)"
    by (cases "js_prop args ''prompt''") (auto simp add: runCodexReview_custom)
next
  assume "truthy args \<and> truthy (js_prop args ''mode'')
        \<and> js_prop args ''mode'' \<notin> {JStr ''uncommitted'', JStr ''base'', JStr ''commit'', JStr ''custom''}"
  then show "runCodexReview e oc args w =
        (case js_String (number_toString e) (js_prop args ''mode'') of
           Some m \<Rightarrow> (Inl (Error (''Unknown review mode: '' @ m)), w)
         | None \<Rightarrow> (Inl (TypeError ''Cannot convert object to primitive value''), w))"
    by (simp add: runCodexReview_unknown to_string_def split: option.splits)
next
  fix m
  assume "truthy args \<and> js_prop args ''mode'' = JStr m \<and> m \<noteq> []
        \<and> m \<notin> {''uncommitted'', ''base'', ''commit'', ''custom''}"
  then show "runCodexReview e oc args w = (Inl (Error (''Unknown review mode: '' @ m)), w)"
    by (simp add: runCodexReview_unknown to_string_def)
qed

theorem C4_review_validation_witness:
  "runCodexReview \<lparr>parse = (\<lambda>s. None), process_cwd = ''/srv'', number_toString = show_int\<rparr> (Closed (Some 0) [])
      (JObj [(''cwd'', JStr ''/repo'')]) world_init
     = (Inl (Error ''codex-review requires mode''), world_init)
   \<and> runCodexReview \<lparr>parse = (\<lambda>s. None), process_cwd = ''/srv'', number_toString = show_int\<rparr> (Closed (Some 0) [])
      (JObj [(''mode'', JStr ''base'')]) world_init
     = (Inl (Error ''mode=base requires base''), world_init)
   \<and> runCodexReview \<lparr>parse = (\<lambda>s. None), process_cwd = ''/srv'', number_toString = show_int\<rparr> (Closed (Some 0) [])
      (JObj [(''mode'', JStr ''commit'')]) world_init
     = (Inl (Error ''mode=commit requires commit''), world_init)
   \<and> runCodexReview \<lparr>parse = (\<lambda>s. None), process_cwd = ''/srv'', number_toString = show_int\<rparr> (Closed (Some 0) [])
      (JObj [(''mode'', JStr ''custom''), (''prompt'', JStr ''   '')]) world_init
     = (Inl (Error ''mode=custom requires prompt''), world_init)
   \<and> runCodexReview \<lparr>parse = (\<lambda>s. None), process_cwd = ''/srv'', number_toString = show_int\<rparr> (Closed (Some 0) [])
      (JObj [(''mode'', JStr ''staged'')]) world_init
     = (Inl (Error ''Unknown review mode: staged''), world_init)
   \<and> runCodexReview \<lparr>parse = (\<lambda>s. None), process_cwd = ''/srv'', number_toString = show_int\<rparr> (Closed (Some 0) [])
      (JObj [(''mode'', JArr [JStr ''base'', JNull, JBool True])]) world_init
     = (Inl (Error ''Unknown review mode: base,,true''), world_init)
   \<and> runCodexReview \<lparr>parse = (\<lambda>s. None), process_cwd = ''/srv'', number_toString = show_int\<rparr> (Closed (Some 0) [])
      (JObj [(''mode'', JArr [JObj [(''toString'', JNum 1)]])]) world_init
     = (Inl (TypeError ''Cannot convert object to primitive value''), world_init)"
  using C4_review_validation [of "JObj [(''cwd'', JStr ''/repo'')]"
          "\<lparr>parse = (\<lambda>s. None), process_cwd = ''/srv'', number_toString = show_int\<rparr>" "Closed (Some 0) []" world_init]
        C4_review_validation [of "JObj [(''mode'', JStr ''base'')]"
          "\<lparr>parse = (\<lambda>s. None), process_cwd = ''/srv'', number_toString = show_int\<rparr>" "Closed (Some 0) []" world_init]
        C4_review_validation [of "JObj [(''mode'', JStr ''commit'')]"
          "\<lparr>parse = (\<lambda>s. None), process_cwd = ''/srv'', number_toString = show_int\<rparr>" "Closed (Some 0) []" world_init]
        C4_review_validation [of "JObj [(''mode'', JStr ''custom''), (''prompt'', JStr ''   '')]"
          "\<lparr>parse = (\<lambda>s. None), process_cwd = ''/srv'', number_toString = show_int\<rparr>" "Closed (Some 0) []" world_init]
        C4_review_validation [of "JObj [(''mode'', JStr ''staged'')]"
          "\<lparr>parse = (\<lambda>s. None), process_cwd = ''/srv'', number_toString = show_int\<rparr>" "Closed (Some 0) []" world_init]
        C4_review_validation [of "JObj [(''mode'', JArr [JStr ''base'', JNull, JBool True])]"
          "\<lparr>parse = (\<lambda>s. None), process_cwd = ''/srv'', number_toString = show_int\<rparr>" "Closed (Some 0) []" world_init]
        C4_review_validation [of "JObj [(''mode'', JArr [JObj [(''toString'', JNum 1)]])]"
          "\<lparr>parse = (\<lambda>s. None), process_cwd = ''/srv'', number_toString = show_int\<rparr>" "Closed (Some 0) []" world_init]
  by (simp add: trim_def is_ws_def)

section \<open>The review vector\<close>

lemma review_cases:
  assumes "spawned (snd (runCodexReview e oc args w)) \<noteq> spawned w"
  shows "\<exists>post \<in> review_opts e args.
           runCodexReview e oc args w =
             runCodexJsonl e oc (review_head args @ [JStr ''--json'', JStr ''review''] @ post)
               (js_prop args ''cwd'') ''Codex review'' w"
proof -
  have tm: "truthy args \<and> truthy (js_prop args ''mode'')"
  proof (rule ccontr)
    assume "\<not> (truthy args \<and> truthy (js_prop args ''mode''))"
    then have "runCodexReview e oc args w = (Inl (Error ''codex-review requires mode''), w)"
      using runCodexReview_missing_mode [of args e oc w] by blast
    with assms show False by simp
  qed
  then have t: "truthy args" and m: "truthy (js_prop args ''mode'')"
    by simp_all
  consider (u) "js_prop args ''mode'' = JStr ''uncommitted''"
    | (b) "js_prop args ''mode'' = JStr ''base''"
    | (c) "js_prop args ''mode'' = JStr ''commit''"
    | (p) "js_prop args ''mode'' = JStr ''custom''"
    | (x) "js_prop args ''mode'' \<notin> {JStr ''uncommitted'', JStr ''base'', JStr ''commit'', JStr ''custom''}"
    by blast
  then show ?thesis
  proof cases
    case u
    then show ?thesis
      using t by (simp add: runCodexReview_uncommitted review_opts_def)
  next
    case b
    then show ?thesis
      using t assms
      by (cases "to_string e (js_prop args ''base'')")
         (auto simp add: runCodexReview_base review_opts_def split: if_splits)
  next
    case c
    then show ?thesis
      using t assms
      by (cases "to_string e (js_prop args ''commit'')")
         (auto simp add: runCodexReview_commit review_opts_def split: if_splits)
  next
    case p
    then show ?thesis
      using t assms
      by (cases "js_prop args ''prompt''")
         (auto simp add: runCodexReview_custom review_opts_def split: if_splits)
  next
    case x
    then show ?thesis
      using t m assms
      by (cases "to_string e (js_prop args ''mode'')") (simp_all add: runCodexReview_unknown)
  qed
qed

text \<open>
  C8. Every review request that reaches \<^verbatim>\<open>spawn\<close> has the vector
  \<^verbatim>\<open>exec [-C <cwd>] --json review <mode options>\<close>: the token \<^verbatim>\<open>review\<close> that the
  mode's options follow stands immediately after \<^verbatim>\<open>--json\<close>.
\<close>

theorem C8_json_before_review:
  assumes "spawned (snd (runCodexReview e oc args w)) \<noteq> spawned w"
  shows "\<exists>pre post dir.
           spawned (snd (runCodexReview e oc args w)) =
             spawned w @ [(pre @ [JStr ''--json'', JStr ''review''] @ post, dir)]
         \<and> pre = JStr ''exec'' #
                  (if truthy (js_prop args ''cwd'') then [JStr ''-C'', js_prop args ''cwd''] else [])
         \<and> post \<in> review_opts e args
         \<and> (pre @ [JStr ''--json'', JStr ''review''] @ post) ! length pre = JStr ''--json''
         \<and> (pre @ [JStr ''--json'', JStr ''review''] @ post) ! Suc (length pre) = JStr ''review''"
proof -
  obtain post where post: "post \<in> review_opts e args"
    and run: "runCodexReview e oc args w =
             runCodexJsonl e oc (review_head args @ [JStr ''--json'', JStr ''review''] @ post)
               (js_prop args ''cwd'') ''Codex review'' w"
    using review_cases [OF assms] by blast
  have sp: "spawned (snd (runCodexReview e oc args w)) =
      spawned w @ [(review_head args @ [JStr ''--json'', JStr ''review''] @ post, review_dir e args)]"
    by (simp add: run spawned_runCodexJsonl review_dir_def)
  have i0: "(review_head args @ [JStr ''--json'', JStr ''review''] @ post) ! length (review_head args)
              = JStr ''--json''"
    by (simp add: nth_append)
  have i1: "(review_head args @ [JStr ''--json'', JStr ''review''] @ post) ! Suc (length (review_head args))
              = JStr ''review''"
    by (simp add: nth_append)
  have hd: "review_head args = JStr ''exec'' #
                  (if truthy (js_prop args ''cwd'') then [JStr ''-C'', js_prop args ''cwd''] else [])"
    by (simp add: review_head_def)
  show ?thesis
    using sp post i0 i1 hd by metis
qed

theorem C8_json_before_review_witness:
  "spawned (snd (runCodexReview \<lparr>parse = (\<lambda>s. None), process_cwd = ''/srv'', number_toString = show_int\<rparr> (Closed (Some 0) [])
       (JObj [(''mode'', JStr ''base''), (''base'', JStr ''main''), (''cwd'', JStr ''/repo'')])
       world_init)) \<noteq> spawned world_init
   \<and> spawned (snd (runCodexReview \<lparr>parse = (\<lambda>s. None), process_cwd = ''/srv'', number_toString = show_int\<rparr> (Closed (Some 0) [])
          (JObj [(''mode'', JStr ''base''), (''base'', JStr ''main''), (''cwd'', JStr ''/repo'')])
          world_init))
       = [([JStr ''exec'', JStr ''-C'', JStr ''/repo'', JStr ''--json'', JStr ''review'',
            JStr ''--base'', JStr ''main''], JStr ''/repo'')]"
proof -
  have h: "spawned (snd (runCodexReview \<lparr>parse = (\<lambda>s. None), process_cwd = ''/srv'', number_toString = show_int\<rparr> (Closed (Some 0) [])
       (JObj [(''mode'', JStr ''base''), (''base'', JStr ''main''), (''cwd'', JStr ''/repo'')])
       world_init)) \<noteq> spawned world_init"
    by (simp add: runCodexReview_def runCodexJsonl_def to_string_def Let_def world_init_def)
  show ?thesis
    using h C8_json_before_review [OF h]
    by (simp add: runCodexReview_def runCodexJsonl_def to_string_def Let_def world_init_def)
qed


section \<open>Required parameters of start and resume\<close>

text \<open>
  C1. A tool call with a missing required parameter is to fail before any child is spawned.
  The code does not do this for the tools \<^verbatim>\<open>codex\<close> and \<^verbatim>\<open>codex-reply\<close>, whose
  schemas declare \<^verbatim>\<open>prompt\<close>, and \<^verbatim>\<open>sessionId\<close> and \<^verbatim>\<open>prompt\<close>, required:
  \<^verbatim>\<open>runCodexStart\<close> and \<^verbatim>\<open>runCodexResume\<close> test nothing before they call
  \<^verbatim>\<open>runCodexJsonl\<close>. A \<^verbatim>\<open>codex-reply\<close> call without a \<^verbatim>\<open>sessionId\<close> spawns
  \<^verbatim>\<open>codex exec --json resume\<close> with \<^verbatim>\<open>undefined\<close> in the identifier's place, an
  empty prompt is passed on as it is, and a \<^verbatim>\<open>codex\<close> call without a prompt spawns with
  \<^verbatim>\<open>undefined\<close> as the prompt. The theorem evaluates the code at these calls.
\<close>

theorem C1_resume_and_start_spawn_without_required_parameters:
  "handleToolCall e oc now
      (JObj [(''jsonrpc'', JStr ''2.0''), (''id'', JNum 7), (''method'', JStr ''tools/call''),
             (''params'', JObj [(''name'', JStr ''codex-reply''),
                                (''arguments'', JObj [(''prompt'', JStr ''hi'')])])])
      world_init
     = (None, reply e (JNum 7)
         (runCodexJsonl e oc [JStr ''exec'', JStr ''--json'', JStr ''resume'', JUndefined, JStr ''hi'']
            JUndefined ''Codex resume'' world_init))
   \<and> spawned (snd (runCodexResume e oc JUndefined (JStr ''hi'') world_init))
       = [([JStr ''exec'', JStr ''--json'', JStr ''resume'', JUndefined, JStr ''hi''],
           JStr (process_cwd e))]
   \<and> spawned (snd (runCodexResume e oc (JStr ''0199a0b1-c2d3-7e4f-8a5b-6c7d8e9f0a1b'') (JStr []) world_init))
       = [([JStr ''exec'', JStr ''--json'', JStr ''resume'',
            JStr ''0199a0b1-c2d3-7e4f-8a5b-6c7d8e9f0a1b'', JStr []], JStr (process_cwd e))]
   \<and> spawned (snd (runCodexStart e oc now (JObj []) world_init))
       = [([JStr ''exec'', JUndefined, JStr ''--sandbox'', JStr ''read-only'', JStr ''--json''],
           JStr (process_cwd e))]"
  by (simp add: handleToolCall_def runCodexResume_def spawned_runCodexJsonl
        spawned_runCodexStart start_cliArgs_def world_init_def)

section \<open>The line handler of the child's output\<close>

lemma rawOutput_onStdoutLine:
  "rawOutput (onStdoutLine e st line) = rawOutput st @ line @ [newline]"
  by (simp add: onStdoutLine_def Let_def split: option.splits)

lemma finalMessage_onStdoutLine:
  "finalMessage (onStdoutLine e st line) =
     (case agent_message e line of Some t \<Rightarrow> t | None \<Rightarrow> finalMessage st)"
  by (simp add: onStdoutLine_def agent_message_def Let_def split: option.splits)

lemma agent_message_truthy:
  "agent_message e line = Some t \<Longrightarrow> truthy t"
  by (auto simp add: agent_message_def opt_prop_def split: if_splits option.splits)
lemma held_onStdoutLine:
  "held (cur_sessionId st) \<Longrightarrow> held (cur_sessionId (onStdoutLine e st line))"
  by (simp add: onStdoutLine_def held_def Let_def split: option.splits)

lemma rawOutput_foldl:
  "rawOutput (foldl (onStdoutLine e) st lines) = rawOutput st @ raw_buffer lines"
  by (induction lines arbitrary: st) (simp_all add: raw_buffer_def rawOutput_onStdoutLine)

lemma held_foldl:
  "held (cur_sessionId st) \<Longrightarrow> held (cur_sessionId (foldl (onStdoutLine e) st lines))"
  by (induction lines arbitrary: st) (simp_all add: held_onStdoutLine)

lemma last_message_snoc:
  "last_message e (lines @ [l]) =
     (case agent_message e l of Some t \<Rightarrow> Some t | None \<Rightarrow> last_message e lines)"
  by (simp add: last_message_def List.map_filter_def Let_def split: option.splits)

lemma finalMessage_foldl:
  "finalMessage (foldl (onStdoutLine e) st lines) =
     (case last_message e lines of Some t \<Rightarrow> t | None \<Rightarrow> finalMessage st)"
proof (induction lines rule: rev_induct)
  case Nil
  then show ?case by (simp add: last_message_def List.map_filter_def)
next
  case (snoc l lines)
  then show ?case
    by (simp add: finalMessage_onStdoutLine last_message_snoc split: option.splits)
qed

lemma last_message_truthy:
  "last_message e lines = Some t \<Longrightarrow> truthy t"
proof (induction lines rule: rev_induct)
  case Nil
  then show ?case by (simp add: last_message_def List.map_filter_def)
next
  case (snoc l lines)
  then show ?case
    by (auto simp add: last_message_snoc agent_message_truthy split: option.splits)
qed

lemma fallback_keeps:
  "rawOutput (fallback st) = rawOutput st" "finalMessage (fallback st) = finalMessage st"
  by (simp_all add: fallback_def split: option.splits)

lemma match_here_nonempty: "match_here s = Some u \<Longrightarrow> length u = 36"
  by (auto simp add: match_here_def Let_def split: if_splits)

lemma thread_id_match_length: "thread_id_match s = Some u \<Longrightarrow> length u = 36"
  by (induction s) (auto simp add: match_here_nonempty split: option.splits)

lemma held_fallback:
  "held (cur_sessionId st) \<Longrightarrow> held (cur_sessionId (fallback st))"
  using thread_id_match_length
  by (fastforce simp add: fallback_def held_def split: option.splits)

lemma held_extracted: "held (extracted e lines)"
  unfolding extracted_def stream_end_def
  by (rule held_fallback, rule held_foldl) (simp add: jsonl_init_def held_def)

lemma extracted_truthy: "truthy (extracted e lines) \<longleftrightarrow> extracted e lines \<noteq> JNull"
  using held_extracted [of e lines] by (auto simp add: held_def)

lemma runCodexJsonl_Closed:
  "fst (runCodexJsonl e (Closed code lines) cliArgs cwd label w) =
     onClose label code (stream_end e lines)"
  by (simp add: runCodexJsonl_def stream_end_def Let_def)

lemma onClose_nonzero:
  "code \<noteq> Some 0 \<Longrightarrow>
   onClose label code st = Inl (Error (label @ '' exited with code '' @ show_code code))"
  by (simp add: onClose_def)

lemma onClose_zero:
  "onClose label (Some 0) st =
     (if \<not> truthy (cur_sessionId (fallback st))
      then Inl (Error (''Could not extract session ID from '' @ label @ '' output''))
      else Inr \<lparr>sessionId = cur_sessionId (fallback st),
                outputText = (if truthy (finalMessage st) then finalMessage st
                              else JStr (rawOutput st))\<rparr>)"
  by (simp add: onClose_def Let_def fallback_keeps)

text \<open>
  C2. A run of \<^verbatim>\<open>runCodexJsonl\<close> resolves exactly when the child closes with exit code
  zero and the identifier held after the fallback is not \<^verbatim>\<open>null\<close>. Every other exit
  code (also \<^verbatim>\<open>null\<close>) rejects with the message naming the label and the code, whatever
  the lines were; exit code zero without an identifier rejects with the
  missing-identifier message; and a resolved result always carries the identifier.
\<close>

theorem C2_success_needs_zero_exit_and_identifier:
  "((\<exists>r. fst (runCodexJsonl e oc cliArgs cwd label w) = Inr r) \<longleftrightarrow>
      (\<exists>lines. oc = Closed (Some 0) lines \<and> extracted e lines \<noteq> JNull))
   \<and> (\<forall>code lines. oc = Closed code lines \<and> code \<noteq> Some 0 \<longrightarrow>
         fst (runCodexJsonl e oc cliArgs cwd label w) =
           Inl (Error (label @ '' exited with code '' @ show_code code)))
   \<and> (\<forall>lines. oc = Closed (Some 0) lines \<and> extracted e lines = JNull \<longrightarrow>
         fst (runCodexJsonl e oc cliArgs cwd label w) =
           Inl (Error (''Could not extract session ID from '' @ label @ '' output'')))
   \<and> (\<forall>r. fst (runCodexJsonl e oc cliArgs cwd label w) = Inr r \<longrightarrow>
         sessionId r \<noteq> JNull \<and> (\<exists>lines. oc = Closed (Some 0) lines \<and> sessionId r = extracted e lines))"
proof (cases oc)
  case (SpawnFailed err)
  then show ?thesis by (simp add: runCodexJsonl_def Let_def)
next
  case (Closed code lines)
  show ?thesis
  proof (cases "code = Some 0")
    case True
    have z: "fst (runCodexJsonl e (Closed (Some 0) lines) cliArgs cwd label w) =
       (if extracted e lines = JNull
        then Inl (Error (''Could not extract session ID from '' @ label @ '' output''))
        else Inr \<lparr>sessionId = extracted e lines,
                  outputText = (if truthy (finalMessage (stream_end e lines))
                                then finalMessage (stream_end e lines)
                                else JStr (rawOutput (stream_end e lines)))\<rparr>)"
      using extracted_truthy [of e lines]
      by (simp add: runCodexJsonl_Closed onClose_zero extracted_def)
    show ?thesis
      unfolding Closed True by (auto simp add: z)
  next
    case False
    then show ?thesis
      using Closed by (simp add: runCodexJsonl_Closed onClose_nonzero)
  qed
qed

theorem C2_success_needs_zero_exit_and_identifier_witness:
  "fst (runCodexJsonl demo_env (Closed (Some 1) [started_line]) [JStr ''exec''] JUndefined ''Codex'' world_init)
     = Inl (Error ''Codex exited with code 1'')
   \<and> extracted demo_env [started_line] = JStr demo_uuid
   \<and> fst (runCodexJsonl demo_env (Closed (Some 0) [''no identifier'']) [JStr ''exec''] JUndefined ''Codex'' world_init)
     = Inl (Error ''Could not extract session ID from Codex output'')
   \<and> extracted demo_env [''no identifier''] = JNull
   \<and> (\<exists>r. fst (runCodexJsonl demo_env (Closed (Some 0) [started_line]) [JStr ''exec''] JUndefined ''Codex'' world_init)
           = Inr r \<and> sessionId r = JStr demo_uuid)"
proof -
  have x1: "extracted demo_env [started_line] = JStr demo_uuid"
    by code_simp
  have x2: "extracted demo_env [''no identifier''] = JNull"
    by code_simp
  have c: "show_code (Some 1) = ''1''"
    by code_simp
  have p1: "fst (runCodexJsonl demo_env (Closed (Some 1) [started_line]) [JStr ''exec''] JUndefined ''Codex'' world_init)
     = Inl (Error ''Codex exited with code 1'')"
    using c C2_success_needs_zero_exit_and_identifier
        [of demo_env "Closed (Some 1) [started_line]" "[JStr ''exec'']" JUndefined "''Codex''" world_init]
    by simp
  have p2: "fst (runCodexJsonl demo_env (Closed (Some 0) [''no identifier'']) [JStr ''exec''] JUndefined ''Codex'' world_init)
     = Inl (Error ''Could not extract session ID from Codex output'')"
    using x2 C2_success_needs_zero_exit_and_identifier
        [of demo_env "Closed (Some 0) [''no identifier'']" "[JStr ''exec'']" JUndefined "''Codex''" world_init]
    by simp
  have "\<exists>lines. Closed (Some 0) [started_line] = Closed (Some 0) lines \<and> extracted demo_env lines \<noteq> JNull"
    using x1 by auto
  then obtain r where r: "fst (runCodexJsonl demo_env (Closed (Some 0) [started_line]) [JStr ''exec''] JUndefined ''Codex'' world_init) = Inr r"
    using C2_success_needs_zero_exit_and_identifier
        [of demo_env "Closed (Some 0) [started_line]" "[JStr ''exec'']" JUndefined "''Codex''" world_init]
    by blast
  then have "sessionId r = JStr demo_uuid"
    using x1 C2_success_needs_zero_exit_and_identifier
        [of demo_env "Closed (Some 0) [started_line]" "[JStr ''exec'']" JUndefined "''Codex''" world_init]
    by auto
  then show ?thesis
    using p1 x1 p2 x2 r by blast
qed

text \<open>
  C5. The \<^verbatim>\<open>output\<close> of a resolved run is the text of the last line that stored a
  final message (a completed item of type \<^verbatim>\<open>agent_message\<close> with a truthy text), and
  when no line stored one it is the raw buffer: every line of the stream, in order, each
  followed by a newline.
\<close>

theorem C5_display_text:
  "fst (runCodexJsonl e (Closed code lines) cliArgs cwd label w) = Inr r \<Longrightarrow>
   outputText r = (case last_message e lines of Some t \<Rightarrow> t | None \<Rightarrow> JStr (raw_buffer lines))"
proof -
  assume a: "fst (runCodexJsonl e (Closed code lines) cliArgs cwd label w) = Inr r"
  let ?st = "stream_end e lines"
  have c: "code = Some 0"
    using a by (cases "code = Some 0") (simp_all add: runCodexJsonl_Closed onClose_nonzero)
  have r: "outputText r = (if truthy (finalMessage ?st) then finalMessage ?st else JStr (rawOutput ?st))"
    using a unfolding c by (auto simp add: runCodexJsonl_Closed onClose_zero split: if_splits)
  have f: "finalMessage ?st = (case last_message e lines of Some t \<Rightarrow> t | None \<Rightarrow> JStr [])"
    by (simp add: stream_end_def finalMessage_foldl jsonl_init_def split: option.splits)
  have b: "rawOutput ?st = raw_buffer lines"
    by (simp add: stream_end_def rawOutput_foldl jsonl_init_def)
  show ?thesis
  proof (cases "last_message e lines")
    case None
    then show ?thesis using r f b by simp
  next
    case (Some t)
    then show ?thesis using r f last_message_truthy [OF Some] by simp
  qed
qed

theorem C5_display_text_witness:
  "fst (runCodexJsonl demo_env (Closed (Some 0) [started_line, hello_line, ''x'', bye_line])
          [JStr ''exec''] JUndefined ''Codex'' world_init)
     = Inr \<lparr>sessionId = JStr demo_uuid, outputText = JStr ''Bye''\<rparr>
   \<and> last_message demo_env [started_line, hello_line, ''x'', bye_line] = Some (JStr ''Bye'')
   \<and> fst (runCodexJsonl demo_env (Closed (Some 0) [started_line, ''x''])
          [JStr ''exec''] JUndefined ''Codex'' world_init)
     = Inr \<lparr>sessionId = JStr demo_uuid, outputText = JStr (started_line @ [newline] @ ''x'' @ [newline])\<rparr>
   \<and> last_message demo_env [started_line, ''x''] = None"
proof -
  have a: "fst (runCodexJsonl demo_env (Closed (Some 0) [started_line, hello_line, ''x'', bye_line])
          [JStr ''exec''] JUndefined ''Codex'' world_init)
     = Inr \<lparr>sessionId = JStr demo_uuid, outputText = JStr ''Bye''\<rparr>"
    by code_simp
  have b: "fst (runCodexJsonl demo_env (Closed (Some 0) [started_line, ''x''])
          [JStr ''exec''] JUndefined ''Codex'' world_init)
     = Inr \<lparr>sessionId = JStr demo_uuid, outputText = JStr (started_line @ [newline] @ ''x'' @ [newline])\<rparr>"
    by code_simp
  have la: "last_message demo_env [started_line, hello_line, ''x'', bye_line] = Some (JStr ''Bye'')"
    by code_simp
  have lb: "last_message demo_env [started_line, ''x''] = None"
    by code_simp
  show ?thesis
    using a b la lb C5_display_text [OF a] C5_display_text [OF b] by simp
qed

section \<open>The fallback scan\<close>

lemma is_uuid_hexdash:
  assumes "is_uuid u"
  shows "length u = 36" and "list_all is_hexdash u"
proof -
  show l: "length u = 36" using assms by (simp add: is_uuid_def)
  have "\<forall>i<36. is_hexdash (u ! i)"
  proof (intro allI impI)
    fix i :: nat assume "i < 36"
    then have "i \<in> set [0..<36]" by simp
    then have "if i \<in> {8, 13, 18, 23} then u ! i = CHR ''-'' else is_hex (u ! i)"
      using assms unfolding is_uuid_def list_all_iff by blast
    then show "is_hexdash (u ! i)"
      by (auto simp add: is_hex_def is_hexdash_def split: if_splits)
  qed
  then show "list_all is_hexdash u"
    using l by (simp add: list_all_length)
qed

lemma hexdash_not_delim: "is_hexdash c \<Longrightarrow> \<not> is_delim c"
  by (auto simp add: is_hexdash_def is_delim_def)

lemma match_here_intro:
  assumes d: "d \<noteq> []" "list_all is_delim d"
    and u: "length u = 36" "list_all is_hexdash u"
  shows "match_here (''thread_id'' @ d @ u @ rest) = Some u"
proof -
  obtain c cs where ucs: "u = c # cs" using u(1) by (cases u) auto
  have nd: "\<not> is_delim c" using u(2) ucs by (simp add: hexdash_not_delim)
  have alld: "\<forall>x\<in>set d. is_delim x" using d(2) by (simp add: list_all_iff)
  have tw: "takeWhile is_delim (d @ u @ rest) = d"
    using alld nd ucs by simp
  have dw: "dropWhile is_delim (d @ u @ rest) = u @ rest"
    using alld nd ucs by simp
  show ?thesis
    using d(1) u tw dw by (simp add: match_here_def Let_def)
qed

lemma match_here_elim:
  assumes "match_here s = Some u"
  shows "\<exists>d rest. s = ''thread_id'' @ d @ u @ rest \<and> d \<noteq> [] \<and> list_all is_delim d
           \<and> length u = 36 \<and> list_all is_hexdash u"
proof -
  have p: "prefix ''thread_id'' s"
    using assms by (simp add: match_here_def split: if_splits)
  then obtain r where s: "s = ''thread_id'' @ r" by (auto simp add: prefix_def)
  let ?d = "takeWhile is_delim r" and ?t = "dropWhile is_delim r"
  have r: "drop 9 s = r" by (simp add: s)
  have m: "?d \<noteq> [] \<and> 36 \<le> length ?t \<and> list_all is_hexdash (take 36 ?t) \<and> u = take 36 ?t"
    using assms p unfolding match_here_def r Let_def by (auto split: if_splits)
  have "s = ''thread_id'' @ ?d @ take 36 ?t @ drop 36 ?t"
    by (simp add: s)
  moreover have "list_all is_delim ?d"
    by (simp add: list_all_iff) (meson set_takeWhileD)
  ultimately show ?thesis
    using m by (metis length_take min.absorb2)
qed

lemma thread_id_match_skip:
  "(\<forall>i<length pre. match_here (drop i (pre @ s)) = None) \<Longrightarrow>
   thread_id_match (pre @ s) = thread_id_match s"
proof (induction pre)
  case Nil
  then show ?case by simp
next
  case (Cons c pre)
  have h0: "match_here ((c # pre) @ s) = None"
    using Cons.prems [rule_format, of 0] by simp
  have "\<forall>i<length pre. match_here (drop i (pre @ s)) = None"
  proof (intro allI impI)
    fix i assume "i < length pre"
    then show "match_here (drop i (pre @ s)) = None"
      using Cons.prems [rule_format, of "Suc i"] by simp
  qed
  then have "thread_id_match (pre @ s) = thread_id_match s" by (rule Cons.IH)
  then show ?case using h0 by simp
qed

lemma thread_id_match_here:
  "match_here s = Some u \<Longrightarrow> thread_id_match s = Some u"
  by (cases s) (simp_all add: match_here_def)

lemma thread_id_match_first:
  "thread_id_match buf = Some u \<longleftrightarrow>
     (\<exists>pre rest. buf = pre @ rest \<and> match_here rest = Some u
        \<and> (\<forall>i<length pre. match_here (drop i buf) = None))"
proof
  assume "thread_id_match buf = Some u"
  then show "\<exists>pre rest. buf = pre @ rest \<and> match_here rest = Some u
        \<and> (\<forall>i<length pre. match_here (drop i buf) = None)"
  proof (induction buf)
    case Nil
    then show ?case by simp
  next
    case (Cons c cs)
    show ?case
    proof (cases "match_here (c # cs)")
      case None
      then have "thread_id_match cs = Some u" using Cons.prems by simp
      then obtain pre rest where pr: "cs = pre @ rest" "match_here rest = Some u"
          "\<forall>i<length pre. match_here (drop i cs) = None"
        using Cons.IH by blast
      have "\<forall>i<length (c # pre). match_here (drop i (c # cs)) = None"
      proof (intro allI impI)
        fix i assume "i < length (c # pre)"
        then show "match_here (drop i (c # cs)) = None"
          using None pr(3) by (cases i) simp_all
      qed
      then show ?thesis
        using pr(1,2) by (metis append_Cons)
    next
      case (Some v)
      then have "v = u" using Cons.prems by simp
      then have "c # cs = [] @ (c # cs) \<and> match_here (c # cs) = Some u
          \<and> (\<forall>i<length ([]::string). match_here (drop i (c # cs)) = None)"
        using Some by simp
      then show ?thesis by blast
    qed
  qed
next
  assume "\<exists>pre rest. buf = pre @ rest \<and> match_here rest = Some u
        \<and> (\<forall>i<length pre. match_here (drop i buf) = None)"
  then obtain pre rest where pr: "buf = pre @ rest" "match_here rest = Some u"
      "\<forall>i<length pre. match_here (drop i buf) = None"
    by blast
  show "thread_id_match buf = Some u"
    using thread_id_match_skip [of pre rest] pr thread_id_match_here by simp
qed

lemma list_all_upt: "list_all P [0..<n] \<Longrightarrow> \<forall>i<n. P i"
  by (simp add: list_all_iff)

lemma run_without_structured_identifier:
  assumes "cur_sessionId (stream_end e lines) = JNull"
  shows "fst (runCodexJsonl e (Closed (Some 0) lines) cliArgs cwd label w) =
     (case thread_id_match (raw_buffer lines) of
        Some u \<Rightarrow> Inr \<lparr>sessionId = JStr u,
                        outputText = (if truthy (finalMessage (stream_end e lines))
                                      then finalMessage (stream_end e lines)
                                      else JStr (rawOutput (stream_end e lines)))\<rparr>
      | None \<Rightarrow> Inl (Error (''Could not extract session ID from '' @ label @ '' output'')))"
proof -
  have b: "rawOutput (stream_end e lines) = raw_buffer lines"
    by (simp add: stream_end_def rawOutput_foldl jsonl_init_def)
  show ?thesis
  proof (cases "thread_id_match (raw_buffer lines)")
    case None
    then show ?thesis
      using assms b by (simp add: runCodexJsonl_Closed onClose_zero fallback_def)
  next
    case (Some u)
    then have "u \<noteq> []" using thread_id_match_length [OF Some] by auto
    then show ?thesis
      using assms b Some by (simp add: runCodexJsonl_Closed onClose_zero fallback_def)
  qed
qed

lemma match_here_literal:
  assumes "is_uuid u"
  shows "match_here (thread_id_literal @ u @ post) = Some u"
proof -
  have "match_here (''thread_id'' @ [CHR 0x22, CHR '':'', CHR 0x22] @ u @ post) = Some u"
    using is_uuid_hexdash [OF assms]
    by (intro match_here_intro) (simp_all add: is_delim_def)
  then show ?thesis by (simp add: thread_id_literal_def)
qed

lemma extracted_without_structured_identifier:
  assumes "cur_sessionId (stream_end e lines) = JNull"
  shows "extracted e lines =
     (case thread_id_match (raw_buffer lines) of Some u \<Rightarrow> JStr u | None \<Rightarrow> JNull)"
proof -
  have b: "rawOutput (stream_end e lines) = raw_buffer lines"
    by (simp add: stream_end_def rawOutput_foldl jsonl_init_def)
  show ?thesis
    using assms b by (simp add: extracted_def fallback_def split: option.splits)
qed

text \<open>
  C6. When the child closes with exit code zero and the line handler holds no identifier,
  the identifier of the run is the group captured by the leftmost match of the pattern in
  the raw buffer, and the run fails when there is no match. A match is \<^verbatim>\<open>thread_id\<close>, one
  or more quotes and colons, and 36 characters that are lowercase hexadecimal digits or
  hyphens. In particular a buffer that holds \<^verbatim>\<open>thread_id":"\<close> followed by a UUID, with
  no match starting before it, gives that UUID.
\<close>

theorem C6_fallback_scan:
  "(cur_sessionId (stream_end e lines) = JNull \<longrightarrow>
      extracted e lines =
        (case thread_id_match (raw_buffer lines) of Some u \<Rightarrow> JStr u | None \<Rightarrow> JNull))
   \<and> (cur_sessionId (stream_end e lines) = JNull \<and> thread_id_match (raw_buffer lines) = Some u \<longrightarrow>
      (\<exists>r. fst (runCodexJsonl e (Closed (Some 0) lines) cliArgs cwd label w) = Inr r
            \<and> sessionId r = JStr u))
   \<and> (cur_sessionId (stream_end e lines) = JNull \<and> thread_id_match (raw_buffer lines) = None \<longrightarrow>
      fst (runCodexJsonl e (Closed (Some 0) lines) cliArgs cwd label w) =
        Inl (Error (''Could not extract session ID from '' @ label @ '' output'')))
   \<and> (thread_id_match buf = Some v \<longleftrightarrow>
        (\<exists>pre rest. buf = pre @ rest \<and> match_here rest = Some v
           \<and> (\<forall>i<length pre. match_here (drop i buf) = None)))
   \<and> (match_here s = Some v \<longleftrightarrow>
        (\<exists>d rest. s = ''thread_id'' @ d @ v @ rest \<and> d \<noteq> [] \<and> list_all is_delim d
           \<and> length v = 36 \<and> list_all is_hexdash v))
   \<and> (cur_sessionId (stream_end e lines) = JNull
        \<and> raw_buffer lines = before @ thread_id_literal @ uuid @ after
        \<and> is_uuid uuid
        \<and> (\<forall>i<length before. match_here (drop i (raw_buffer lines)) = None) \<longrightarrow>
      extracted e lines = JStr uuid
      \<and> (\<exists>r. fst (runCodexJsonl e (Closed (Some 0) lines) cliArgs cwd label w) = Inr r
              \<and> sessionId r = JStr uuid))"
proof (intro conjI impI)
  assume a: "cur_sessionId (stream_end e lines) = JNull"
  show "extracted e lines =
        (case thread_id_match (raw_buffer lines) of Some u \<Rightarrow> JStr u | None \<Rightarrow> JNull)"
    using a by (rule extracted_without_structured_identifier)
next
  assume "cur_sessionId (stream_end e lines) = JNull \<and> thread_id_match (raw_buffer lines) = Some u"
  then show "\<exists>r. fst (runCodexJsonl e (Closed (Some 0) lines) cliArgs cwd label w) = Inr r
            \<and> sessionId r = JStr u"
    by (simp add: run_without_structured_identifier)
next
  assume "cur_sessionId (stream_end e lines) = JNull \<and> thread_id_match (raw_buffer lines) = None"
  then show "fst (runCodexJsonl e (Closed (Some 0) lines) cliArgs cwd label w) =
        Inl (Error (''Could not extract session ID from '' @ label @ '' output''))"
    by (simp add: run_without_structured_identifier)
next
  show "thread_id_match buf = Some v \<longleftrightarrow>
        (\<exists>pre rest. buf = pre @ rest \<and> match_here rest = Some v
           \<and> (\<forall>i<length pre. match_here (drop i buf) = None))"
    by (rule thread_id_match_first)
next
  show "match_here s = Some v \<longleftrightarrow>
        (\<exists>d rest. s = ''thread_id'' @ d @ v @ rest \<and> d \<noteq> [] \<and> list_all is_delim d
           \<and> length v = 36 \<and> list_all is_hexdash v)"
    using match_here_elim [of s v] match_here_intro by blast
next
  assume a: "cur_sessionId (stream_end e lines) = JNull
        \<and> raw_buffer lines = before @ thread_id_literal @ uuid @ after
        \<and> is_uuid uuid
        \<and> (\<forall>i<length before. match_here (drop i (raw_buffer lines)) = None)"
  then have eq: "raw_buffer lines = before @ (thread_id_literal @ uuid @ after)"
    by simp
  have "\<forall>i<length before. match_here (drop i (before @ (thread_id_literal @ uuid @ after))) = None"
    using a unfolding eq by blast
  then have "thread_id_match (raw_buffer lines) = thread_id_match (thread_id_literal @ uuid @ after)"
    unfolding eq by (rule thread_id_match_skip)
  also have "\<dots> = Some uuid"
    using a match_here_literal thread_id_match_here by blast
  finally have m: "thread_id_match (raw_buffer lines) = Some uuid" .
  show "extracted e lines = JStr uuid"
    using a m by (simp add: extracted_without_structured_identifier)
  show "\<exists>r. fst (runCodexJsonl e (Closed (Some 0) lines) cliArgs cwd label w) = Inr r
            \<and> sessionId r = JStr uuid"
    using a m by (simp add: run_without_structured_identifier)
qed

theorem C6_fallback_scan_witness:
  "cur_sessionId (stream_end demo_env [fallback_line]) = JNull
   \<and> raw_buffer [fallback_line] = ''warn '' @ thread_id_literal @ demo_uuid @ (CHR 0x22 # '' seen'' @ [newline])
   \<and> is_uuid demo_uuid
   \<and> thread_id_match (raw_buffer [fallback_line]) = Some demo_uuid
   \<and> extracted demo_env [fallback_line] = JStr demo_uuid
   \<and> (\<exists>r. fst (runCodexJsonl demo_env (Closed (Some 0) [fallback_line]) [JStr ''exec'']
                  JUndefined ''Codex'' world_init) = Inr r
           \<and> sessionId r = JStr demo_uuid)"
proof -
  have s: "cur_sessionId (stream_end demo_env [fallback_line]) = JNull"
    by code_simp
  have b: "raw_buffer [fallback_line] = ''warn '' @ thread_id_literal @ demo_uuid @ (CHR 0x22 # '' seen'' @ [newline])"
    by code_simp
  have u: "is_uuid demo_uuid"
    by code_simp
  have "list_all (\<lambda>i. match_here (drop i (raw_buffer [fallback_line])) = None) [0..<length ''warn '']"
    by code_simp
  then have n: "\<forall>i<length ''warn ''. match_here (drop i (raw_buffer [fallback_line])) = None"
    by (rule list_all_upt)
  have m: "thread_id_match (raw_buffer [fallback_line]) = Some demo_uuid"
    by code_simp
  have h: "cur_sessionId (stream_end demo_env [fallback_line]) = JNull
        \<and> raw_buffer [fallback_line] = ''warn '' @ thread_id_literal @ demo_uuid @ (CHR 0x22 # '' seen'' @ [newline])
        \<and> is_uuid demo_uuid
        \<and> (\<forall>i<length ''warn ''. match_here (drop i (raw_buffer [fallback_line])) = None)"
    using s b u n by blast
  show ?thesis
    using s b u m
      C6_fallback_scan [where e = demo_env and lines = "[fallback_line]" and u = demo_uuid
        and cliArgs = "[JStr ''exec'']" and cwd = JUndefined and label = "''Codex''"
        and w = world_init and before = "''warn ''" and uuid = demo_uuid
        and after = "CHR 0x22 # '' seen'' @ [newline]"]
      h
    by blast
qed


section \<open>The session registry\<close>

lemma fst_runCodexJsonl_world:
  "fst (runCodexJsonl e oc cliArgs cwd label w) = fst (runCodexJsonl e oc cliArgs cwd label w')"
  by (simp add: runCodexJsonl_def Let_def split: outcome.splits)

lemma runCodexStart_nullish:
  "nullish args \<Longrightarrow> runCodexStart e oc now args w = (Inl (TypeError ''args.prompt''), w)"
  by (simp add: runCodexStart_def)

lemma fst_runCodexStart:
  "\<not> nullish args \<Longrightarrow>
   fst (runCodexStart e oc now args w) =
     fst (runCodexJsonl e oc (start_cliArgs args) (js_prop args ''cwd'') ''Codex'' w)"
proof -
  assume a: "\<not> nullish args"
  obtain res w' where rw: "runCodexJsonl e oc (start_cliArgs args) (js_prop args ''cwd'') ''Codex'' w = (res, w')"
    by (cases "runCodexJsonl e oc (start_cliArgs args) (js_prop args ''cwd'') ''Codex'' w")
  show ?thesis
    using a rw by (cases res) (simp_all add: runCodexStart_unfold)
qed

lemma fst_runCodexStart_world:
  "fst (runCodexStart e oc now args w) = fst (runCodexStart e oc now args w')"
proof (cases "nullish args")
  case True
  then show ?thesis by (simp add: runCodexStart_nullish)
next
  case False
  then show ?thesis
    using fst_runCodexJsonl_world [of e oc "start_cliArgs args" "js_prop args ''cwd''" "''Codex''" w w']
    by (simp add: fst_runCodexStart)
qed

lemma sessions_runCodexStart:
  "sessions (snd (runCodexStart e oc now args w)) =
     (case fst (runCodexStart e oc now args w) of
        Inl err \<Rightarrow> sessions w
      | Inr r \<Rightarrow> (sessions w)(sessionId r \<mapsto>
                    \<lparr>created = now, initialPrompt = js_prop args ''prompt''\<rparr>))"
proof (cases "nullish args")
  case True
  then show ?thesis by (simp add: runCodexStart_nullish)
next
  case False
  obtain res w' where rw: "runCodexJsonl e oc (start_cliArgs args) (js_prop args ''cwd'') ''Codex'' w = (res, w')"
    by (cases "runCodexJsonl e oc (start_cliArgs args) (js_prop args ''cwd'') ''Codex'' w")
  have "sessions w' = sessions w"
    using sessions_runCodexJsonl [of e oc "start_cliArgs args" "js_prop args ''cwd''" "''Codex''" w] rw
    by simp
  then show ?thesis
    using False rw by (cases res) (simp_all add: runCodexStart_unfold)
qed

lemma sessions_runCodexResume:
  "sessions (snd (runCodexResume e oc sid prompt w)) = sessions w"
  by (simp add: runCodexResume_def sessions_runCodexJsonl)

lemma runCodexReview_world:
  "(\<exists>err. runCodexReview e oc args w = (Inl err, w))
   \<or> (\<exists>cliArgs. runCodexReview e oc args w =
          runCodexJsonl e oc cliArgs (js_prop args ''cwd'') ''Codex review'' w)"
proof (cases "truthy args \<and> truthy (js_prop args ''mode'')")
  case False
  then show ?thesis
    using runCodexReview_missing_mode [of args e oc w] by blast
next
  case True
  then have t: "truthy args" and m: "truthy (js_prop args ''mode'')" by simp_all
  consider (u) "js_prop args ''mode'' = JStr ''uncommitted''"
    | (b) "js_prop args ''mode'' = JStr ''base''"
    | (c) "js_prop args ''mode'' = JStr ''commit''"
    | (p) "js_prop args ''mode'' = JStr ''custom''"
    | (x) "js_prop args ''mode'' \<notin> {JStr ''uncommitted'', JStr ''base'', JStr ''commit'', JStr ''custom''}"
    by blast
  then show ?thesis
  proof cases
    case u
    then show ?thesis using t runCodexReview_uncommitted [of args e oc w] by metis
  next
    case b
    then show ?thesis
      using t runCodexReview_base [of args e oc w]
      by (cases "to_string e (js_prop args ''base'')") (auto split: if_splits)
  next
    case c
    then show ?thesis
      using t runCodexReview_commit [of args e oc w]
      by (cases "to_string e (js_prop args ''commit'')") (auto split: if_splits)
  next
    case p
    show ?thesis
    proof (cases "js_prop args ''prompt''")
      case (JStr q)
      then show ?thesis
        using t p runCodexReview_custom [of args e oc w] by (cases "q = [] \<or> trim q = []") auto
    qed (use t p runCodexReview_custom [of args e oc w] in auto)
  next
    case x
    then show ?thesis
      using t m runCodexReview_unknown [of args e oc w]
      by (cases "to_string e (js_prop args ''mode'')") auto
  qed
qed

lemma sessions_runCodexReview:
  "sessions (snd (runCodexReview e oc args w)) = sessions w"
  using runCodexReview_world [of e oc args w] sessions_runCodexJsonl by (metis snd_conv)
lemma sessions_send:
  "sessions (sendResponse i r w) = sessions w" "sessions (sendError i c m w) = sessions w"
  by (simp_all add: sendResponse_def sendError_def)

lemma sessions_reply: "sessions (reply e i rw) = sessions (snd rw)"
  by (cases rw) (simp add: reply_def sessions_send split: sum.splits)

lemma sessions_handleToolCall:
  "sessions (snd (handleToolCall e oc now msg w)) =
     (if \<not> nullish (js_prop msg ''params'')
         \<and> js_prop (js_prop msg ''params'') ''name'' = JStr ''codex''
      then sessions (snd (runCodexStart e oc now (js_prop (js_prop msg ''params'') ''arguments'') w))
      else sessions w)"
  by (simp add: handleToolCall_def Let_def sessions_reply sessions_send
        sessions_runCodexResume sessions_runCodexReview split: sum.splits)

lemma sessions_onLine:
  "sessions (onLine e oc now line w) =
     (case started e oc now line of
        None \<Rightarrow> sessions w
      | Some k \<Rightarrow> (sessions w)(k \<mapsto> \<lparr>created = now,
            initialPrompt = js_prop (js_prop (js_prop (the (parse e line)) ''params'') ''arguments'') ''prompt''\<rparr>))"
proof (cases "parse e line")
  case None
  then show ?thesis by (simp add: onLine_def started_def)
next
  case (Some msg)
  let ?args = "js_prop (js_prop msg ''params'') ''arguments''"
  show ?thesis
  proof (cases "\<not> nullish msg \<and> js_prop msg ''method'' = JStr ''tools/call''
             \<and> \<not> nullish (js_prop msg ''params'')
             \<and> js_prop (js_prop msg ''params'') ''name'' = JStr ''codex''")
    case True
    have o: "sessions (onLine e oc now line w) = sessions (snd (runCodexStart e oc now ?args w))"
      using Some True by (simp add: onLine_def Let_def sessions_handleToolCall)
    have s: "started e oc now line =
        (case fst (runCodexStart e oc now ?args w) of Inr r \<Rightarrow> Some (sessionId r) | Inl err \<Rightarrow> None)"
      using Some True fst_runCodexStart_world [of e oc now ?args w world_init]
      by (simp add: started_def)
    show ?thesis
      unfolding o s sessions_runCodexStart using Some
      by (simp split: sum.splits)
  next
    case False
    have s: "started e oc now line = None"
      using Some False by (auto simp add: started_def)
    have "sessions (onLine e oc now line w) = sessions w"
      using Some False
      by (auto simp add: onLine_def Let_def sessions_handleToolCall handleInitialize_def
            handleToolsList_def sessions_send)
    then show ?thesis by (simp add: s)
  qed
qed

lemma dom_sessions_serve:
  "dom (sessions (serve e trace w)) =
     dom (sessions w) \<union> {k. \<exists>(line, oc, now) \<in> set trace. started e oc now line = Some k}"
proof (induction trace arbitrary: w)
  case Nil
  then show ?case by simp
next
  case (Cons x trace)
  obtain line oc now where x: "x = (line, oc, now)" by (cases x)
  have d: "dom (sessions (onLine e oc now line w)) =
      dom (sessions w) \<union> {k. started e oc now line = Some k}"
    by (cases "started e oc now line") (auto simp add: sessions_onLine)
  show ?case
    unfolding x using Cons.IH [of "onLine e oc now line w"] d by auto
qed

text \<open>
  C9. Starting from the empty registry and handling a sequence of inbound frames, the keys
  of \<^verbatim>\<open>sessions\<close> are exactly the identifiers with which a start operation of the
  sequence completed successfully. A single frame leaves the map as it was unless its start
  operation succeeds, and then stores one record under the identifier returned (over a
  record already there, if any); no key is ever removed. \<^verbatim>\<open>runCodexResume\<close> and
  \<^verbatim>\<open>runCodexReview\<close> leave the map unchanged.
\<close>

theorem C9_registry:
  "dom (sessions (serve e trace world_init)) =
     {k. \<exists>(line, oc, now) \<in> set trace. started e oc now line = Some k}
   \<and> (started e oc now line = None \<longrightarrow> sessions (onLine e oc now line w) = sessions w)
   \<and> (\<forall>k. started e oc now line = Some k \<longrightarrow>
         (\<exists>p. sessions (onLine e oc now line w) =
                (sessions w)(k \<mapsto> \<lparr>created = now, initialPrompt = p\<rparr>)))
   \<and> dom (sessions w) \<subseteq> dom (sessions (onLine e oc now line w))
   \<and> sessions (snd (runCodexResume e oc sid prompt w)) = sessions w
   \<and> sessions (snd (runCodexReview e oc args w)) = sessions w"
proof (intro conjI)
  show "dom (sessions (serve e trace world_init)) =
     {k. \<exists>(line, oc, now) \<in> set trace. started e oc now line = Some k}"
    by (simp add: dom_sessions_serve world_init_def)
  show "started e oc now line = None \<longrightarrow> sessions (onLine e oc now line w) = sessions w"
    by (simp add: sessions_onLine)
  show "\<forall>k. started e oc now line = Some k \<longrightarrow>
         (\<exists>p. sessions (onLine e oc now line w) =
                (sessions w)(k \<mapsto> \<lparr>created = now, initialPrompt = p\<rparr>))"
    by (auto simp add: sessions_onLine)
  show "dom (sessions w) \<subseteq> dom (sessions (onLine e oc now line w))"
    by (cases "started e oc now line") (auto simp add: sessions_onLine)
  show "sessions (snd (runCodexResume e oc sid prompt w)) = sessions w"
    by (rule sessions_runCodexResume)
  show "sessions (snd (runCodexReview e oc args w)) = sessions w"
    by (rule sessions_runCodexReview)
qed

theorem C9_registry_witness:
  "dom (sessions (serve demo_env
         [(start_request, Closed (Some 0) [started_line, hello_line], 1000),
          (reply_request, Closed (Some 0) [started_line], 1001),
          (start_request, Closed (Some 1) [started_line], 1002),
          (review_request, Closed (Some 0) [started_line], 1003)] world_init))
     = {JStr demo_uuid}
   \<and> sessions (serve demo_env
         [(start_request, Closed (Some 0) [started_line, hello_line], 1000),
          (reply_request, Closed (Some 0) [started_line], 1001),
          (start_request, Closed (Some 1) [started_line], 1002),
          (review_request, Closed (Some 0) [started_line], 1003)] world_init) (JStr demo_uuid)
     = Some \<lparr>created = 1000, initialPrompt = JStr ''hello''\<rparr>
   \<and> started demo_env (Closed (Some 0) [started_line, hello_line]) 1000 start_request = Some (JStr demo_uuid)
   \<and> started demo_env (Closed (Some 1) [started_line]) 1002 start_request = None"
proof -
  have s1: "started demo_env (Closed (Some 0) [started_line, hello_line]) 1000 start_request = Some (JStr demo_uuid)"
    by code_simp
  have s2: "started demo_env (Closed (Some 0) [started_line]) 1001 reply_request = None"
    by code_simp
  have s3: "started demo_env (Closed (Some 1) [started_line]) 1002 start_request = None"
    by code_simp
  have s4: "started demo_env (Closed (Some 0) [started_line]) 1003 review_request = None"
    by code_simp
  have v: "sessions (serve demo_env
         [(start_request, Closed (Some 0) [started_line, hello_line], 1000),
          (reply_request, Closed (Some 0) [started_line], 1001),
          (start_request, Closed (Some 1) [started_line], 1002),
          (review_request, Closed (Some 0) [started_line], 1003)] world_init) (JStr demo_uuid)
     = Some \<lparr>created = 1000, initialPrompt = JStr ''hello''\<rparr>"
    by code_simp
  have "dom (sessions (serve demo_env
         [(start_request, Closed (Some 0) [started_line, hello_line], 1000),
          (reply_request, Closed (Some 0) [started_line], 1001),
          (start_request, Closed (Some 1) [started_line], 1002),
          (review_request, Closed (Some 0) [started_line], 1003)] world_init))
     = {k. \<exists>(line, oc, now) \<in> set
         [(start_request, Closed (Some 0) [started_line, hello_line], 1000),
          (reply_request, Closed (Some 0) [started_line], 1001),
          (start_request, Closed (Some 1) [started_line], 1002),
          (review_request, Closed (Some 0) [started_line], 1003)]. started demo_env oc now line = Some k}"
    by (rule C9_registry [THEN conjunct1])
  also have "\<dots> = {JStr demo_uuid}"
    using s1 s2 s3 s4 by auto
  finally have "dom (sessions (serve demo_env
         [(start_request, Closed (Some 0) [started_line, hello_line], 1000),
          (reply_request, Closed (Some 0) [started_line], 1001),
          (start_request, Closed (Some 1) [started_line], 1002),
          (review_request, Closed (Some 0) [started_line], 1003)] world_init))
     = {JStr demo_uuid}" .
  then show ?thesis
    using v s1 s3 by blast
qed

section \<open>Responses of the dispatcher\<close>

lemma stdout_runCodexReview:
  "stdout (snd (runCodexReview e oc args w)) = stdout w"
  using runCodexReview_world [of e oc args w] stdout_runCodexJsonl by (metis snd_conv)

lemma stdout_runCodexResume:
  "stdout (snd (runCodexResume e oc sid prompt w)) = stdout w"
  by (simp add: runCodexResume_def stdout_runCodexJsonl)

lemma stdout_runCodexStart:
  "stdout (snd (runCodexStart e oc now args w)) = stdout w"
proof (cases "nullish args")
  case True
  then show ?thesis by (simp add: runCodexStart_nullish)
next
  case False
  obtain res w' where rw: "runCodexJsonl e oc (start_cliArgs args) (js_prop args ''cwd'') ''Codex'' w = (res, w')"
    by (cases "runCodexJsonl e oc (start_cliArgs args) (js_prop args ''cwd'') ''Codex'' w")
  have "stdout w' = stdout w"
    using stdout_runCodexJsonl [of e oc "start_cliArgs args" "js_prop args ''cwd''" "''Codex''" w] rw
    by simp
  then show ?thesis
    using False rw by (cases res) (simp_all add: runCodexStart_unfold)
qed
lemma stdout_reply: "\<exists>f. stdout (reply e i rw) = stdout (snd rw) @ [f] \<and> frame_id f = i"
  by (cases rw) (simp add: reply_def sendResponse_def sendError_def split: sum.splits)

lemma stdout_handleToolCall:
  assumes "\<not> nullish (js_prop msg ''params'')"
  shows "\<exists>f. stdout (snd (handleToolCall e oc now msg w)) = stdout w @ [f]
            \<and> frame_id f = js_prop msg ''id''"
proof -
  let ?p = "js_prop msg ''params''" and ?i = "js_prop msg ''id''"
  let ?args = "js_prop ?p ''arguments''"
  consider (s) "js_prop ?p ''name'' = JStr ''codex''"
    | (r) "js_prop ?p ''name'' = JStr ''codex-reply''" "nullish ?args"
    | (r') "js_prop ?p ''name'' = JStr ''codex-reply''" "\<not> nullish ?args"
    | (v) "js_prop ?p ''name'' = JStr ''codex-review''"
    | (x) "js_prop ?p ''name'' \<notin> {JStr ''codex'', JStr ''codex-reply'', JStr ''codex-review''}"
    by blast
  then show ?thesis
  proof cases
    case s
    then show ?thesis
      using assms stdout_reply [of e ?i "runCodexStart e oc now ?args w"]
      by (simp add: handleToolCall_def Let_def stdout_runCodexStart)
  next
    case r
    then show ?thesis
      using assms by (simp add: handleToolCall_def Let_def sendError_def)
  next
    case r'
    then show ?thesis
      using assms stdout_reply [of e ?i "runCodexResume e oc (js_prop ?args ''sessionId'')
                                        (js_prop ?args ''prompt'') w"]
      by (simp add: handleToolCall_def Let_def stdout_runCodexResume)
  next
    case v
    then show ?thesis
      using assms stdout_reply [of e ?i "runCodexReview e oc ?args w"]
      by (simp add: handleToolCall_def Let_def stdout_runCodexReview)
  next
    case x
    then show ?thesis
      using assms
      by (cases "to_string e (js_prop ?p ''name'')")
         (simp_all add: handleToolCall_def Let_def sendError_def)
  qed
qed

text \<open>
  C3. Not every request with an id is answered by one frame: a \<^verbatim>\<open>tools/call\<close> frame
  with an id and no \<^verbatim>\<open>params\<close> gets no response (the destructuring of
  \<^verbatim>\<open>message.params\<close> throws before the \<^verbatim>\<open>try\<close> of \<^verbatim>\<open>handleToolCall\<close>, and the
  line handler only logs what is thrown), and a frame with method \<^verbatim>\<open>initialized\<close>
  gets none either, with or without an id.
\<close>

theorem C3_every_request_answered_counterexample:
  "parse demo_env no_params_request =
      Some (JObj [(''jsonrpc'', JStr ''2.0''), (''id'', JNum 3), (''method'', JStr ''tools/call'')])
   \<and> stdout (onLine demo_env (Closed (Some 0) [started_line]) 0 no_params_request world_init) = []
   \<and> parse demo_env initialized_request =
      Some (JObj [(''jsonrpc'', JStr ''2.0''), (''id'', JNum 4), (''method'', JStr ''initialized'')])
   \<and> stdout (onLine demo_env (Closed (Some 0) [started_line]) 0 initialized_request world_init) = []"
  by code_simp

text \<open>
  C3, amended. For every inbound frame that parses to a value other than \<^verbatim>\<open>null\<close>, whose
  method is not \<^verbatim>\<open>initialized\<close> and, when the method is \<^verbatim>\<open>tools/call\<close>, whose
  \<^verbatim>\<open>params\<close> is neither \<^verbatim>\<open>null\<close> nor absent, the dispatcher writes exactly one
  frame, a result or an error, and the frame carries the id of the message. A frame with
  method \<^verbatim>\<open>initialized\<close> is answered by nothing.
\<close>

theorem C3_one_response:
  "(parse e line = Some msg \<and> \<not> nullish msg \<and> js_prop msg ''method'' \<noteq> JStr ''initialized''
      \<and> (js_prop msg ''method'' = JStr ''tools/call'' \<longrightarrow> \<not> nullish (js_prop msg ''params'')) \<longrightarrow>
      (\<exists>f. stdout (onLine e oc now line w) = stdout w @ [f] \<and> frame_id f = js_prop msg ''id''))
   \<and> (parse e line = Some msg \<and> js_prop msg ''method'' = JStr ''initialized'' \<longrightarrow>
      stdout (onLine e oc now line w) = stdout w)"
proof (intro conjI impI)
  assume a: "parse e line = Some msg \<and> \<not> nullish msg \<and> js_prop msg ''method'' \<noteq> JStr ''initialized''
      \<and> (js_prop msg ''method'' = JStr ''tools/call'' \<longrightarrow> \<not> nullish (js_prop msg ''params''))"
  consider (i) "js_prop msg ''method'' = JStr ''initialize''"
    | (l) "js_prop msg ''method'' = JStr ''tools/list''"
    | (c) "js_prop msg ''method'' = JStr ''tools/call''"
    | (x) "js_prop msg ''method'' \<notin> {JStr ''initialize'', JStr ''initialized'', JStr ''tools/list'', JStr ''tools/call''}"
    using a by blast
  then show "\<exists>f. stdout (onLine e oc now line w) = stdout w @ [f] \<and> frame_id f = js_prop msg ''id''"
  proof cases
    case i
    then show ?thesis
      using a by (simp add: onLine_def Let_def handleInitialize_def sendResponse_def)
  next
    case l
    then show ?thesis
      using a by (simp add: onLine_def Let_def handleToolsList_def sendResponse_def)
  next
    case c
    then show ?thesis
      using a stdout_handleToolCall [of msg e oc now w]
      by (simp add: onLine_def Let_def)
  next
    case x
    then show ?thesis
      using a by (simp add: onLine_def Let_def sendError_def)
  qed
next
  assume "parse e line = Some msg \<and> js_prop msg ''method'' = JStr ''initialized''"
  then show "stdout (onLine e oc now line w) = stdout w"
    by (simp add: onLine_def Let_def)
qed

theorem C3_one_response_witness:
  "parse demo_env start_request =
      Some (JObj [(''jsonrpc'', JStr ''2.0''), (''id'', JNum 1), (''method'', JStr ''tools/call''),
               (''params'', JObj [(''name'', JStr ''codex''),
                                  (''arguments'', JObj [(''prompt'', JStr ''hello'')])])])
   \<and> stdout (onLine demo_env (Closed (Some 0) [started_line, hello_line]) 1000 start_request world_init)
       = [Response (JNum 1) (ToolContent (JStr ''Hello'') (session_note demo_uuid))]
   \<and> stdout (onLine demo_env (Closed (Some 1) [started_line, hello_line]) 1000 start_request world_init)
       = [ErrorResponse (JNum 1) (- 32603) ''Codex exited with code 1'']
   \<and> stdout (onLine demo_env (Closed (Some 0) []) 1000 initialized_request world_init) = []"
proof -
  let ?msg = "JObj [(''jsonrpc'', JStr ''2.0''), (''id'', JNum 1), (''method'', JStr ''tools/call''),
               (''params'', JObj [(''name'', JStr ''codex''),
                                  (''arguments'', JObj [(''prompt'', JStr ''hello'')])])]"
  have p: "parse demo_env start_request = Some ?msg"
    by code_simp
  have h: "parse demo_env start_request = Some ?msg \<and> \<not> nullish ?msg
      \<and> js_prop ?msg ''method'' \<noteq> JStr ''initialized''
      \<and> (js_prop ?msg ''method'' = JStr ''tools/call'' \<longrightarrow> \<not> nullish (js_prop ?msg ''params''))"
    using p by simp
  have a: "stdout (onLine demo_env (Closed (Some 0) [started_line, hello_line]) 1000 start_request world_init)
       = [Response (JNum 1) (ToolContent (JStr ''Hello'') (session_note demo_uuid))]"
    by code_simp
  have b: "stdout (onLine demo_env (Closed (Some 1) [started_line, hello_line]) 1000 start_request world_init)
       = [ErrorResponse (JNum 1) (- 32603) ''Codex exited with code 1'']"
    by code_simp
  have c: "stdout (onLine demo_env (Closed (Some 0) []) 1000 initialized_request world_init) = []"
    by code_simp
  have "\<exists>f. stdout (onLine demo_env (Closed (Some 0) [started_line, hello_line]) 1000 start_request world_init)
             = stdout world_init @ [f] \<and> frame_id f = js_prop ?msg ''id''"
    using h C3_one_response [of demo_env start_request ?msg "Closed (Some 0) [started_line, hello_line]"
        1000 world_init]
    by blast
  then show ?thesis
    using p a b c by blast
qed

end
